theory Spec2Isabelle
  imports Main "HOL-Library.Word" "HOL-Library.Sublist"
begin

section \<open>Document analyzer service (app/main.py)\<close>

text \<open>
  The service is orchestration code over library calls: a YAML loader, a text splitter, a
  FAISS vector store, an embeddings client and a retrieval chain in front of a hosted
  language model. The functions of \<^verbatim>\<open>app/main.py\<close> are embedded one by one, with
  explicit state and with every \<^verbatim>\<open>raise\<close> as a value. What a library call answers
  is not decided by the repository, so it is a field of the record \<open>world\<close> below and
  every theorem holds for all worlds.
\<close>

subsection \<open>Exceptions\<close>

text \<open>
  A Python exception is kept with its class, as far as a handler of the source tells classes
  apart (\<^verbatim>\<open>except UnicodeDecodeError\<close> against \<^verbatim>\<open>except Exception\<close>), and with
  the text that \<^verbatim>\<open>str(e)\<close> gives. Every value of the type is an instance of
  \<^verbatim>\<open>Exception\<close>; what only \<^verbatim>\<open>BaseException\<close> covers (an interrupt, a cancelled
  task) is not modelled.
\<close>

datatype exn =
    KeyError string
  | TypeError string
  | UnicodeDecodeError string
  | Exception string

fun str :: "exn \<Rightarrow> string" where
  "str (KeyError m) = m"
| "str (TypeError m) = m"
| "str (UnicodeDecodeError m) = m"
| "str (Exception m) = m"

subsection \<open>Data\<close>

text \<open>
  The metadata of a document is a dictionary of strings; the handler builds it with the keys
  \<^verbatim>\<open>filename\<close>, \<^verbatim>\<open>timestamp\<close> and \<^verbatim>\<open>version\<close>, in this order.
\<close>

type_synonym metadata = "(string \<times> string) list"

text \<open>
  An entry of the vector index is the stored document: the chunk text and its metadata. The
  embedding vector that the index keeps beside it is computed by the embeddings service and
  is never read by the repository; the call that computes it is kept as an effect that can
  raise.
\<close>

record doc =
  page_content :: string
  doc_metadata :: metadata

text \<open>What \<^verbatim>\<open>yaml.safe_load\<close> can return (floats left out).\<close>

datatype yaml =
    YNull
  | YBool bool
  | YInt int
  | YStr string
  | YSeq "yaml list"
  | YMap "(yaml \<times> yaml) list"

text \<open>The content of a \<^verbatim>\<open>JSONResponse\<close>, and the response itself.\<close>

datatype json =
    JStr string
  | JObj "(string \<times> json) list"

record response =
  status_code :: nat
  content :: json

definition JSONResponse :: "nat \<Rightarrow> json \<Rightarrow> response" where
  "JSONResponse code body = \<lparr>status_code = code, content = body\<rparr>"

text \<open>
  The calls into the text splitter, the vector store and the retrieval chain, recorded in
  the order in which they are made, each with its arguments.
\<close>

datatype call =
    SplitText nat nat string
  | AddTexts "string list" "metadata list"
  | SaveLocal string
  | LoadLocal string
  | FromTexts "string list"
  | QaRun string

datatype level = DEBUG | ERROR

text \<open>
  The state outside the analyzer object: the environment variables of the process, the
  directories that hold a persisted index (by path), the log, and the record of calls.
\<close>

record sys =
  environ :: "string \<rightharpoonup> string"
  disk :: "string \<rightharpoonup> doc list"
  log :: "(level \<times> string) list"
  calls :: "call list"

text \<open>
  The attributes of a constructed \<^verbatim>\<open>DocumentAnalyzer\<close>. The handles \<^verbatim>\<open>llm\<close> and
  \<^verbatim>\<open>embeddings\<close> hold no data of their own; what they answer is in the world.
\<close>

record analyzer =
  config :: yaml
  vector_store :: "doc list"

text \<open>
  The uploaded file of a request to \<^verbatim>\<open>/analyze\<close>: its name and what
  \<^verbatim>\<open>await file.read()\<close> gives, bytes or an exception.
\<close>

record upload =
  filename :: string
  file_read :: "exn + 8 word list"

text \<open>
  The world: what each library call answers. An \<open>exn option\<close> is \<open>Some e\<close> when the
  call raises \<open>e\<close>. \<^verbatim>\<open>ChatOpenAI\<close> is given the model name (its temperature, 0.3,
  is a constant of the source that no result depends on). The retrieval chain is built on a retriever over a vector store, so its
  answer depends on the documents of that store and on the question. The two clock
  readings are the \<^verbatim>\<open>datetime.now().isoformat()\<close> of the handler and that of
  \<^verbatim>\<open>process_document\<close>.
\<close>

record world =
  open_file :: "string \<Rightarrow> exn + string"
  safe_load :: "string \<Rightarrow> exn + yaml"
  ChatOpenAI_raises :: "string \<Rightarrow> exn option"
  OpenAIEmbeddings_raises :: "exn option"
  load_local_raises :: "string \<Rightarrow> exn option"
  from_texts_raises :: "string list \<Rightarrow> exn option"
  split_text :: "nat \<Rightarrow> nat \<Rightarrow> string \<Rightarrow> exn + string list"
  add_texts_raises :: "string list \<Rightarrow> exn option"
  save_local_raises :: "string \<Rightarrow> doc list \<Rightarrow> exn option"
  qa_run :: "doc list \<Rightarrow> string \<Rightarrow> exn + string"
  now_upload :: string
  now_result :: string

subsection \<open>Logging\<close>

definition logger_error :: "string \<Rightarrow> sys \<Rightarrow> sys" where
  "logger_error msg s = s\<lparr>log := log s @ [(ERROR, msg)]\<rparr>"

definition logger_debug :: "string \<Rightarrow> sys \<Rightarrow> sys" where
  "logger_debug msg s = s\<lparr>log := log s @ [(DEBUG, msg)]\<rparr>"

definition record_call :: "call \<Rightarrow> sys \<Rightarrow> sys" where
  "record_call c s = s\<lparr>calls := calls s @ [c]\<rparr>"

subsection \<open>Python built-ins used by the source\<close>

text \<open>
  \<^verbatim>\<open>obj[key]\<close> with a string key on a value loaded from YAML: only a mapping can be
  subscripted by a string, and a mapping without the key raises \<^verbatim>\<open>KeyError\<close>, whose
  text is the \<^verbatim>\<open>repr\<close> of the key.
\<close>

fun type_name :: "yaml \<Rightarrow> string" where
  "type_name YNull = ''NoneType''"
| "type_name (YBool b) = ''bool''"
| "type_name (YInt i) = ''int''"
| "type_name (YStr s) = ''str''"
| "type_name (YSeq xs) = ''list''"
| "type_name (YMap kvs) = ''dict''"

fun getitem :: "yaml \<Rightarrow> string \<Rightarrow> exn + yaml" where
  "getitem (YMap kvs) k =
     (case map_of kvs (YStr k) of
        None \<Rightarrow> Inl (KeyError ([CHR 0x27] @ k @ [CHR 0x27]))
      | Some v \<Rightarrow> Inr v)"
| "getitem (YStr s) k = Inl (TypeError ''string indices must be integers'')"
| "getitem (YSeq xs) k = Inl (TypeError ''list indices must be integers or slices, not str'')"
| "getitem v k =
     Inl (TypeError ([CHR 0x27] @ type_name v @ [CHR 0x27] @ '' object is not subscriptable''))"

text \<open>\<^verbatim>\<open>os.environ[name] = value\<close> accepts a string only.\<close>

definition environ_setitem :: "string \<Rightarrow> yaml \<Rightarrow> sys \<Rightarrow> exn + sys" where
  "environ_setitem name v s =
     (case v of
        YStr val \<Rightarrow> Inr (s\<lparr>environ := (environ s)(name \<mapsto> val)\<rparr>)
      | _ \<Rightarrow> Inl (TypeError (''str expected, not '' @ type_name v)))"

text \<open>
  \<^verbatim>\<open>bytes.decode("utf-8")\<close> is strict: it accepts the well-formed byte sequences of
  the Unicode standard (no overlong form, no surrogate, nothing above U+10FFFF) and raises
  \<^verbatim>\<open>UnicodeDecodeError\<close> on every other input. A decoded text is kept as its
  UTF-8 bytes, one \<open>char\<close> each, which determines its code points.
\<close>

definition continuation :: "8 word \<Rightarrow> bool" where
  "continuation b \<longleftrightarrow> 0x80 \<le> b \<and> b \<le> 0xBF"

definition second_of3 :: "8 word \<Rightarrow> 8 word \<Rightarrow> bool" where
  "second_of3 b c \<longleftrightarrow>
     (if b = 0xE0 then 0xA0 \<le> c \<and> c \<le> 0xBF
      else if b = 0xED then 0x80 \<le> c \<and> c \<le> 0x9F
      else continuation c)"

definition second_of4 :: "8 word \<Rightarrow> 8 word \<Rightarrow> bool" where
  "second_of4 b c \<longleftrightarrow>
     (if b = 0xF0 then 0x90 \<le> c \<and> c \<le> 0xBF
      else if b = 0xF4 then 0x80 \<le> c \<and> c \<le> 0x8F
      else continuation c)"

fun valid_utf8 :: "8 word list \<Rightarrow> bool" where
  "valid_utf8 [] = True"
| "valid_utf8 (b # bs) =
     (if b \<le> 0x7F then valid_utf8 bs
      else if 0xC2 \<le> b \<and> b \<le> 0xDF then
        (case bs of
           c1 # r \<Rightarrow> continuation c1 \<and> valid_utf8 r
         | _ \<Rightarrow> False)
      else if 0xE0 \<le> b \<and> b \<le> 0xEF then
        (case bs of
           c1 # c2 # r \<Rightarrow> second_of3 b c1 \<and> continuation c2 \<and> valid_utf8 r
         | _ \<Rightarrow> False)
      else if 0xF0 \<le> b \<and> b \<le> 0xF4 then
        (case bs of
           c1 # c2 # c3 # r \<Rightarrow>
             second_of4 b c1 \<and> continuation c2 \<and> continuation c3 \<and> valid_utf8 r
         | _ \<Rightarrow> False)
      else False)"

definition decode :: "8 word list \<Rightarrow> exn + string" where
  "decode bs =
     (if valid_utf8 bs then Inr (map (\<lambda>b. char_of (unat b)) bs)
      else Inl (UnicodeDecodeError ''utf-8 codec cannot decode bytes''))"

subsection \<open>Library calls\<close>

text \<open>
  Modelled from the spec: the vector store, the splitter and the retrieval chain are
  library code outside the repository. The spec (4.2) gives the store as an append-only
  collection with \<^verbatim>\<open>add(chunks, metadata)\<close> appending, \<^verbatim>\<open>persist()\<close> writing the
  current state to the path and overwriting what was there, and loading giving back what
  was persisted. Whether a call raises, what the splitter returns and what the chain
  answers are taken from the world. A call that raises is taken to leave the store and
  the directory as they were.
\<close>

definition splitter_split_text ::
  "world \<Rightarrow> nat \<Rightarrow> nat \<Rightarrow> string \<Rightarrow> sys \<Rightarrow> (exn + string list) \<times> sys" where
  "splitter_split_text w chunk_size chunk_overlap text s =
     (split_text w chunk_size chunk_overlap text,
      record_call (SplitText chunk_size chunk_overlap text) s)"

text \<open>
  The documents that the store makes of texts and their metadata, the i-th text with the
  i-th metadata; the source passes two lists of the same length.
\<close>

definition new_docs :: "string list \<Rightarrow> metadata list \<Rightarrow> doc list" where
  "new_docs texts metadatas =
     map (\<lambda>(t, m). \<lparr>page_content = t, doc_metadata = m\<rparr>) (zip texts metadatas)"

definition add_texts ::
  "world \<Rightarrow> string list \<Rightarrow> metadata list \<Rightarrow> doc list \<Rightarrow> sys \<Rightarrow> (exn + doc list) \<times> sys" where
  "add_texts w texts metadatas store s =
     (case add_texts_raises w texts of
        Some e \<Rightarrow> (Inl e, record_call (AddTexts texts metadatas) s)
      | None \<Rightarrow> (Inr (store @ new_docs texts metadatas),
                 record_call (AddTexts texts metadatas) s))"

definition save_local :: "world \<Rightarrow> string \<Rightarrow> doc list \<Rightarrow> sys \<Rightarrow> (exn + unit) \<times> sys" where
  "save_local w folder store s =
     (case save_local_raises w folder store of
        Some e \<Rightarrow> (Inl e, record_call (SaveLocal folder) s)
      | None \<Rightarrow> (Inr (), record_call (SaveLocal folder) (s\<lparr>disk := (disk s)(folder \<mapsto> store)\<rparr>)))"

definition path_exists :: "string \<Rightarrow> sys \<Rightarrow> bool" where
  "path_exists folder s \<longleftrightarrow> disk s folder \<noteq> None"

definition load_local :: "world \<Rightarrow> string \<Rightarrow> sys \<Rightarrow> (exn + doc list) \<times> sys" where
  "load_local w folder s =
     (case load_local_raises w folder of
        Some e \<Rightarrow> (Inl e, record_call (LoadLocal folder) s)
      | None \<Rightarrow>
          (case disk s folder of
             None \<Rightarrow> (Inl (Exception ''could not open index''), record_call (LoadLocal folder) s)
           | Some docs \<Rightarrow> (Inr docs, record_call (LoadLocal folder) s)))"

text \<open>\<^verbatim>\<open>FAISS.from_texts\<close> without metadata gives every text the empty dictionary.\<close>

definition from_texts :: "world \<Rightarrow> string list \<Rightarrow> sys \<Rightarrow> (exn + doc list) \<times> sys" where
  "from_texts w texts s =
     (case from_texts_raises w texts of
        Some e \<Rightarrow> (Inl e, record_call (FromTexts texts) s)
      | None \<Rightarrow> (Inr (new_docs texts (map (\<lambda>_. []) texts)), record_call (FromTexts texts) s))"

text \<open>
  \<^verbatim>\<open>RetrievalQA.from_chain_type(llm, "stuff", retriever=store.as_retriever()).run(q)\<close>:
  the retriever is over the store it is given, all of it.
\<close>

definition RetrievalQA_run :: "world \<Rightarrow> doc list \<Rightarrow> string \<Rightarrow> sys \<Rightarrow> (exn + string) \<times> sys" where
  "RetrievalQA_run w store question s = (qa_run w store question, record_call (QaRun question) s)"

subsection \<open>DocumentAnalyzer\<close>

definition load_config_try :: "world \<Rightarrow> string \<Rightarrow> sys \<Rightarrow> exn + yaml \<times> sys" where
  "load_config_try w config_path s =
     (case open_file w config_path of
        Inl e \<Rightarrow> Inl e
      | Inr text \<Rightarrow>
     (case safe_load w text of
        Inl e \<Rightarrow> Inl e
      | Inr cfg \<Rightarrow>
     (case getitem cfg ''openai_api_key'' of
        Inl e \<Rightarrow> Inl e
      | Inr v \<Rightarrow>
     (case environ_setitem ''OPENAI_API_KEY'' v s of
        Inl e \<Rightarrow> Inl e
      | Inr s' \<Rightarrow> Inr (cfg, s')))))"

definition load_config :: "world \<Rightarrow> string \<Rightarrow> sys \<Rightarrow> (exn + yaml) \<times> sys" where
  "load_config w config_path s =
     (case load_config_try w config_path s of
        Inl e \<Rightarrow> (Inl e, logger_error (''Error loading config: '' @ str e) s)
      | Inr (cfg, s') \<Rightarrow> (Inr cfg, s'))"

definition setup_llm :: "world \<Rightarrow> sys \<Rightarrow> (exn + unit) \<times> sys" where
  "setup_llm w s =
     (case ChatOpenAI_raises w ''gpt-3.5-turbo'' of
        Some e \<Rightarrow> (Inl e, logger_error (''Error setting up LLM: '' @ str e) s)
      | None \<Rightarrow>
     (case OpenAIEmbeddings_raises w of
        Some e \<Rightarrow> (Inl e, logger_error (''Error setting up LLM: '' @ str e) s)
      | None \<Rightarrow> (Inr (), s)))"

definition initialize_vector_store_try :: "world \<Rightarrow> sys \<Rightarrow> (exn + doc list) \<times> sys" where
  "initialize_vector_store_try w s =
     (if path_exists ''vectorstore'' s then load_local w ''vectorstore'' s
      else from_texts w [''initialization''] s)"

definition initialize_vector_store :: "world \<Rightarrow> sys \<Rightarrow> (exn + doc list) \<times> sys" where
  "initialize_vector_store w s =
     (case initialize_vector_store_try w s of
        (Inl e, s') \<Rightarrow> (Inl e, logger_error (''Error initializing vector store: '' @ str e) s')
      | (Inr store, s') \<Rightarrow> (Inr store, s'))"

text \<open>\<^verbatim>\<open>DocumentAnalyzer.__init__\<close>; the module calls it with the default path.\<close>

definition DocumentAnalyzer_init :: "world \<Rightarrow> string \<Rightarrow> sys \<Rightarrow> (exn + analyzer) \<times> sys" where
  "DocumentAnalyzer_init w config_path s =
     (case load_config w config_path s of
        (Inl e, s1) \<Rightarrow> (Inl e, s1)
      | (Inr cfg, s1) \<Rightarrow>
     (case setup_llm w s1 of
        (Inl e, s2) \<Rightarrow> (Inl e, s2)
      | (Inr _, s2) \<Rightarrow>
     (case initialize_vector_store w s2 of
        (Inl e, s3) \<Rightarrow> (Inl e, s3)
      | (Inr store, s3) \<Rightarrow> (Inr \<lparr>config = cfg, vector_store = store\<rparr>, s3))))"

definition startup :: "world \<Rightarrow> sys \<Rightarrow> (exn + analyzer) \<times> sys" where
  "startup w s = DocumentAnalyzer_init w ''config/config.yaml'' s"

definition summary_question :: string where
  "summary_question = ''Provide a brief summary of the main topics in this document.''"

definition result_dict :: "string \<Rightarrow> metadata \<Rightarrow> string \<Rightarrow> json" where
  "result_dict timestamp md analysis =
     JObj [(''status'', JStr ''success''),
           (''timestamp'', JStr timestamp),
           (''metadata'', JObj (map (\<lambda>(k, v). (k, JStr v)) md)),
           (''analysis'', JStr analysis)]"

definition process_document_try ::
  "world \<Rightarrow> string \<Rightarrow> metadata \<Rightarrow> analyzer \<Rightarrow> sys \<Rightarrow> (exn + json) \<times> analyzer \<times> sys" where
  "process_document_try w text md a s =
     (case splitter_split_text w 1000 200 text s of
        (Inl e, s1) \<Rightarrow> (Inl e, a, s1)
      | (Inr chunks, s1) \<Rightarrow>
     (case add_texts w chunks (map (\<lambda>_. md) chunks) (vector_store a) s1 of
        (Inl e, s2) \<Rightarrow> (Inl e, a, s2)
      | (Inr store, s2) \<Rightarrow>
     (case save_local w ''vectorstore'' store s2 of
        (Inl e, s3) \<Rightarrow> (Inl e, a\<lparr>vector_store := store\<rparr>, s3)
      | (Inr _, s3) \<Rightarrow>
     (case RetrievalQA_run w store summary_question s3 of
        (Inl e, s4) \<Rightarrow> (Inl e, a\<lparr>vector_store := store\<rparr>, s4)
      | (Inr analysis, s4) \<Rightarrow>
          (Inr (result_dict (now_result w) md analysis), a\<lparr>vector_store := store\<rparr>, s4)))))"

definition process_document ::
  "world \<Rightarrow> string \<Rightarrow> metadata \<Rightarrow> analyzer \<Rightarrow> sys \<Rightarrow> (exn + json) \<times> analyzer \<times> sys" where
  "process_document w text md a s =
     (case process_document_try w text md a s of
        (Inl e, a', s') \<Rightarrow> (Inl e, a', logger_error (''Error processing document: '' @ str e) s')
      | (Inr result, a', s') \<Rightarrow> (Inr result, a', s'))"

subsection \<open>The handlers\<close>

definition error_body :: "string \<Rightarrow> json" where
  "error_body msg = JObj [(''error'', JStr msg)]"

definition upload_metadata :: "world \<Rightarrow> upload \<Rightarrow> metadata" where
  "upload_metadata w file =
     [(''filename'', filename file), (''timestamp'', now_upload w), (''version'', ''1.0'')]"

definition analyze_document_try ::
  "world \<Rightarrow> upload \<Rightarrow> analyzer \<Rightarrow> sys \<Rightarrow> (exn + response) \<times> analyzer \<times> sys" where
  "analyze_document_try w file a s =
     (case file_read file of
        Inl e \<Rightarrow> (Inl e, a, s)
      | Inr bytes \<Rightarrow>
          if length bytes > 1024 * 1024 * 10 then
            (Inr (JSONResponse 400 (error_body ''File too large. Maximum size is 10MB'')), a, s)
          else
     (case decode bytes of
        Inl (UnicodeDecodeError m) \<Rightarrow>
          (Inr (JSONResponse 400 (error_body ''File must be a valid text document'')), a, s)
      | Inl e \<Rightarrow> (Inl e, a, s)
      | Inr text \<Rightarrow>
     (case process_document w text (upload_metadata w file) a s of
        (Inr result, a', s') \<Rightarrow> (Inr (JSONResponse 200 result), a', s')
      | (Inl e, a', s') \<Rightarrow>
          (Inr (JSONResponse 500 (error_body (''Error processing document: '' @ str e))), a',
           logger_error (''Error processing document: '' @ str e) s'))))"

definition analyze_document ::
  "world \<Rightarrow> upload \<Rightarrow> analyzer \<Rightarrow> sys \<Rightarrow> (exn + response) \<times> analyzer \<times> sys" where
  "analyze_document w file a s =
     (case analyze_document_try w file a (logger_debug (''Received file: '' @ filename file) s) of
        (Inl e, a', s') \<Rightarrow>
          (Inr (JSONResponse 500 (error_body (''Upload error: '' @ str e))), a',
           logger_error (''Upload error: '' @ str e) s')
      | (Inr r, a', s') \<Rightarrow> (Inr r, a', s'))"

definition query_body :: "string \<Rightarrow> string \<Rightarrow> json" where
  "query_body question answer = JObj [(''question'', JStr question), (''answer'', JStr answer)]"

definition query_documents ::
  "world \<Rightarrow> string \<Rightarrow> analyzer \<Rightarrow> sys \<Rightarrow> (exn + response) \<times> analyzer \<times> sys" where
  "query_documents w question a s =
     (case RetrievalQA_run w (vector_store a) question s of
        (Inr answer, s') \<Rightarrow> (Inr (JSONResponse 200 (query_body question answer)), a, s')
      | (Inl e, s') \<Rightarrow>
          (Inr (JSONResponse 500 (error_body (''Error querying documents: '' @ str e))), a,
           logger_error (''Error querying documents: '' @ str e) s'))"

subsection \<open>A running service\<close>

datatype request = Analyze upload | Query string

fun handle :: "world \<Rightarrow> request \<Rightarrow> analyzer \<Rightarrow> sys \<Rightarrow> (exn + response) \<times> analyzer \<times> sys" where
  "handle w (Analyze file) a s = analyze_document w file a s"
| "handle w (Query question) a s = query_documents w question a s"

text \<open>Requests served one after the other, each in the world of its moment.\<close>

fun serve :: "(world \<times> request) list \<Rightarrow> analyzer \<times> sys \<Rightarrow> analyzer \<times> sys" where
  "serve [] st = st"
| "serve ((w, r) # rest) (a, s) = serve rest (snd (handle w r a s))"

text \<open>
  Two relations between the running service and the index persisted at
  \<^verbatim>\<open>vectorstore\<close>: the persisted index, when there is one, is not empty; and it is an
  initial part of the index held in memory.
\<close>

definition persisted_nonempty :: "sys \<Rightarrow> bool" where
  "persisted_nonempty s \<longleftrightarrow> (\<forall>docs. disk s ''vectorstore'' = Some docs \<longrightarrow> docs \<noteq> [])"

definition persisted_within :: "analyzer \<Rightarrow> sys \<Rightarrow> bool" where
  "persisted_within a s \<longleftrightarrow>
     (\<forall>docs. disk s ''vectorstore'' = Some docs \<longrightarrow> prefix docs (vector_store a))"

subsection \<open>A concrete world, for evaluating the operations\<close>

text \<open>
  A world in which every call succeeds: the settings file holds the credential, the splitter
  cuts a text into its first four characters and what follows its first two, and the chain
  gives a fixed answer. The worlds of the examples below change one answer at a time.
\<close>

definition example_world :: world where
  "example_world =
     \<lparr>open_file = (\<lambda>path. if path = ''config/config.yaml'' then Inr ''openai_api_key: sk-test''
                          else Inl (Exception ''No such file or directory'')),
      safe_load = (\<lambda>text. if text = ''openai_api_key: sk-test''
                          then Inr (YMap [(YStr ''openai_api_key'', YStr ''sk-test'')])
                          else Inl (Exception ''could not parse'')),
      ChatOpenAI_raises = (\<lambda>model_name. None),
      OpenAIEmbeddings_raises = None,
      load_local_raises = (\<lambda>folder. None),
      from_texts_raises = (\<lambda>texts. None),
      split_text = (\<lambda>chunk_size chunk_overlap text. Inr [take 4 text, drop 2 text]),
      add_texts_raises = (\<lambda>texts. None),
      save_local_raises = (\<lambda>folder store. None),
      qa_run = (\<lambda>store question. Inr ''Two topics.''),
      now_upload = ''2024-05-01T10:00:00'',
      now_result = ''2024-05-01T10:00:02''\<rparr>"

definition example_sys :: sys where
  "example_sys = \<lparr>environ = Map.empty, disk = Map.empty, log = [], calls = []\<rparr>"

definition example_analyzer :: analyzer where
  "example_analyzer =
     \<lparr>config = YMap [(YStr ''openai_api_key'', YStr ''sk-test'')],
      vector_store = [\<lparr>page_content = ''initialization'', doc_metadata = []\<rparr>]\<rparr>"

definition example_metadata :: metadata where
  "example_metadata =
     [(''filename'', ''a.txt''), (''timestamp'', ''2024-05-01T10:00:00''), (''version'', ''1.0'')]"

definition example_upload :: upload where
  "example_upload = \<lparr>filename = ''a.txt'', file_read = Inr [0x61, 0x62, 0x63, 0x64, 0x65, 0x66]\<rparr>"

section \<open>Properties\<close>

subsection \<open>Unfolding the ingestion pipeline\<close>

lemmas lib_defs = splitter_split_text_def add_texts_def save_local_def RetrievalQA_run_def
  record_call_def logger_error_def logger_debug_def

lemmas example_defs = example_world_def example_sys_def example_analyzer_def
  example_metadata_def example_upload_def

lemma map_const_replicate: "map (\<lambda>_. x) xs = replicate (length xs) x"
  by (induction xs) simp_all

lemma new_docs_const:
  "new_docs chunks (map (\<lambda>_. md) chunks) = map (\<lambda>c. \<lparr>page_content = c, doc_metadata = md\<rparr>) chunks"
  by (induction chunks) (simp_all add: new_docs_def)

lemma process_document_try_split_raises:
  assumes "split_text w 1000 200 text = Inl e"
  shows "process_document_try w text md a s =
           (Inl e, a, s\<lparr>calls := calls s @ [SplitText 1000 200 text]\<rparr>)"
  using assms by (simp add: process_document_try_def lib_defs)

lemma process_document_try_cases:
  assumes "split_text w 1000 200 text = Inr chunks"
  shows "process_document_try w text md a s =
    (let c1 = calls s @ [SplitText 1000 200 text, AddTexts chunks (map (\<lambda>_. md) chunks)];
         store = vector_store a @ new_docs chunks (map (\<lambda>_. md) chunks) in
     case add_texts_raises w chunks of
       Some e \<Rightarrow> (Inl e, a, s\<lparr>calls := c1\<rparr>)
     | None \<Rightarrow>
     (case save_local_raises w ''vectorstore'' store of
       Some e \<Rightarrow> (Inl e, a\<lparr>vector_store := store\<rparr>, s\<lparr>calls := c1 @ [SaveLocal ''vectorstore'']\<rparr>)
     | None \<Rightarrow>
     (case qa_run w store summary_question of
       Inl e \<Rightarrow> (Inl e, a\<lparr>vector_store := store\<rparr>,
          s\<lparr>disk := (disk s)(''vectorstore'' \<mapsto> store),
            calls := c1 @ [SaveLocal ''vectorstore'', QaRun summary_question]\<rparr>)
     | Inr analysis \<Rightarrow> (Inr (result_dict (now_result w) md analysis), a\<lparr>vector_store := store\<rparr>,
          s\<lparr>disk := (disk s)(''vectorstore'' \<mapsto> store),
            calls := c1 @ [SaveLocal ''vectorstore'', QaRun summary_question]\<rparr>))))"
  using assms
  by (simp add: process_document_try_def lib_defs Let_def split: option.splits sum.splits)

lemma process_document_state:
  "snd (process_document w text md a s) =
     (case process_document_try w text md a s of
        (Inl e, a', s') \<Rightarrow> (a', logger_error (''Error processing document: '' @ str e) s')
      | (Inr result, a', s') \<Rightarrow> (a', s'))"
  by (simp add: process_document_def split: prod.splits sum.splits)

lemma process_document_result:
  "fst (process_document w text md a s) = fst (process_document_try w text md a s)"
  by (simp add: process_document_def split: prod.splits sum.splits)

subsection \<open>Ingestion: chunks and metadata\<close>

text \<open>
  C1. The chunks that ingestion passes to the vector index are the chunks that the splitter
  returns for the text at chunk size 1000 and overlap 200, and the metadata list passed with
  them has one entry per chunk, each the submitted record. When the insertion does not
  raise, the index grows by exactly one document per chunk, in order, each with the
  submitted metadata; when it raises, or when the splitter raises, the index is as before.
\<close>

theorem process_document_inserts_split:
  assumes "process_document w text md a s = (r, a', s')"
  shows "(\<forall>chunks. split_text w 1000 200 text = Inr chunks \<longrightarrow>
            (\<exists>rest. calls s' = calls s @ [SplitText 1000 200 text,
                                          AddTexts chunks (replicate (length chunks) md)] @ rest)
          \<and> (add_texts_raises w chunks = None \<longrightarrow>
                vector_store a' =
                  vector_store a @ map (\<lambda>c. \<lparr>page_content = c, doc_metadata = md\<rparr>) chunks
              \<and> length (vector_store a') = length (vector_store a) + length chunks)
          \<and> (add_texts_raises w chunks \<noteq> None \<longrightarrow> vector_store a' = vector_store a))
       \<and> (\<forall>e. split_text w 1000 200 text = Inl e \<longrightarrow>
            calls s' = calls s @ [SplitText 1000 200 text] \<and> vector_store a' = vector_store a)"
proof (intro conjI allI impI)
  fix e
  assume "split_text w 1000 200 text = Inl e"
  from process_document_try_split_raises [OF this, of md a s] assms
  have st: "(a', s') = (a, logger_error (''Error processing document: '' @ str e)
                             (s\<lparr>calls := calls s @ [SplitText 1000 200 text]\<rparr>))"
    using process_document_state [of w "text" md a s] by simp
  from st show "calls s' = calls s @ [SplitText 1000 200 text]"
    by (simp add: logger_error_def)
  from st show "vector_store a' = vector_store a" by simp
next
  fix chunks
  assume sp: "split_text w 1000 200 text = Inr chunks"
  note tr = process_document_try_cases [OF sp, of md a s]
  have st: "(a', s') =
     (case process_document_try w text md a s of
        (Inl e, a', s') \<Rightarrow> (a', logger_error (''Error processing document: '' @ str e) s')
      | (Inr result, a', s') \<Rightarrow> (a', s'))"
    using process_document_state [of w "text" md a s] assms by simp
  show "\<exists>rest. calls s' = calls s @ [SplitText 1000 200 text,
                                          AddTexts chunks (replicate (length chunks) md)] @ rest"
    using st unfolding tr
    by (auto simp: Let_def logger_error_def map_const_replicate split: option.splits sum.splits)
  show "vector_store a' = vector_store a" if "add_texts_raises w chunks \<noteq> None"
    using st that unfolding tr by (auto simp: Let_def)
  assume ok: "add_texts_raises w chunks = None"
  show "vector_store a' =
          vector_store a @ map (\<lambda>c. \<lparr>page_content = c, doc_metadata = md\<rparr>) chunks"
    using st ok unfolding tr
    by (auto simp: Let_def new_docs_const split: option.splits sum.splits)
  then show "length (vector_store a') = length (vector_store a) + length chunks"
    by simp
qed

theorem process_document_inserts_split_witness:
  "vector_store (fst (snd (process_document example_world ''abcdef'' example_metadata
                             example_analyzer example_sys))) =
     [\<lparr>page_content = ''initialization'', doc_metadata = []\<rparr>,
      \<lparr>page_content = ''abcd'', doc_metadata = example_metadata\<rparr>,
      \<lparr>page_content = ''cdef'', doc_metadata = example_metadata\<rparr>]
   \<and> calls (snd (snd (process_document example_world ''abcdef'' example_metadata
                             example_analyzer example_sys))) =
     [SplitText 1000 200 ''abcdef'',
      AddTexts [''abcd'', ''cdef''] [example_metadata, example_metadata],
      SaveLocal ''vectorstore'',
      QaRun summary_question]"
proof -
  let ?run = "process_document example_world ''abcdef'' example_metadata example_analyzer
                example_sys"
  have sp: "split_text example_world 1000 200 ''abcdef'' = Inr [''abcd'', ''cdef'']"
    by (simp add: example_world_def)
  have ok: "add_texts_raises example_world [''abcd'', ''cdef''] = None"
    by (simp add: example_world_def)
  have run: "?run = (fst ?run, fst (snd ?run), snd (snd ?run))"
    by simp
  have tr: "calls (snd (snd ?run)) =
     [SplitText 1000 200 ''abcdef'',
      AddTexts [''abcd'', ''cdef''] [example_metadata, example_metadata],
      SaveLocal ''vectorstore'',
      QaRun summary_question]"
    by (simp add: process_document_def process_document_try_def lib_defs example_defs)
  from process_document_inserts_split [OF run] sp ok
  have "vector_store (fst (snd ?run)) =
          vector_store example_analyzer @
            map (\<lambda>c. \<lparr>page_content = c, doc_metadata = example_metadata\<rparr>) [''abcd'', ''cdef'']"
    by blast
  with tr show ?thesis by (simp add: example_analyzer_def)
qed

subsection \<open>The upload handler: rejected uploads\<close>

lemma analyze_document_unfold:
  "analyze_document w file a s =
     (case file_read file of
        Inl e \<Rightarrow>
          (Inr (JSONResponse 500 (error_body (''Upload error: '' @ str e))), a,
           logger_error (''Upload error: '' @ str e)
             (logger_debug (''Received file: '' @ filename file) s))
      | Inr bytes \<Rightarrow>
          if 10485760 < length bytes then
            (Inr (JSONResponse 400 (error_body ''File too large. Maximum size is 10MB'')), a,
             logger_debug (''Received file: '' @ filename file) s)
          else if \<not> valid_utf8 bytes then
            (Inr (JSONResponse 400 (error_body ''File must be a valid text document'')), a,
             logger_debug (''Received file: '' @ filename file) s)
          else
            (case process_document w (map (\<lambda>b. char_of (unat b)) bytes) (upload_metadata w file) a
                    (logger_debug (''Received file: '' @ filename file) s) of
               (Inr result, a', s') \<Rightarrow> (Inr (JSONResponse 200 result), a', s')
             | (Inl e, a', s') \<Rightarrow>
                 (Inr (JSONResponse 500 (error_body (''Error processing document: '' @ str e))),
                  a', logger_error (''Error processing document: '' @ str e) s')))"
  by (simp add: analyze_document_def analyze_document_try_def decode_def
      split: sum.splits prod.splits exn.splits)

text \<open>
  C2. An upload to \<^verbatim>\<open>/analyze\<close> whose payload has more than 10485760 bytes is
  answered with status 400 and the body
  \<^verbatim>\<open>{"error": "File too large. Maximum size is 10MB"}\<close>; the vector index is as it
  was, nothing is written to the persisted index, and no call reaches the splitter, the
  index or the chain.
\<close>

theorem analyze_document_too_large:
  assumes "file_read file = Inr bytes"
      and "10485760 < length bytes"
      and "analyze_document w file a s = (r, a', s')"
  shows "r = Inr \<lparr>status_code = 400,
                   content = JObj [(''error'', JStr ''File too large. Maximum size is 10MB'')]\<rparr>
       \<and> vector_store a' = vector_store a
       \<and> disk s' = disk s
       \<and> calls s' = calls s"
  using assms
  by (auto simp: analyze_document_unfold JSONResponse_def error_body_def logger_debug_def)

theorem analyze_document_too_large_witness:
  "fst (analyze_document example_world
          \<lparr>filename = ''big.bin'', file_read = Inr (replicate 10485761 0)\<rparr>
          example_analyzer example_sys) =
     Inr \<lparr>status_code = 400,
          content = JObj [(''error'', JStr ''File too large. Maximum size is 10MB'')]\<rparr>"
proof -
  let ?file = "\<lparr>filename = ''big.bin'', file_read = Inr (replicate 10485761 (0 :: 8 word))\<rparr>"
  have rd: "file_read ?file = Inr (replicate 10485761 0)" by simp
  have big: "10485760 < length (replicate 10485761 (0 :: 8 word))" by simp
  have run: "analyze_document example_world ?file example_analyzer example_sys =
          (fst (analyze_document example_world ?file example_analyzer example_sys),
           fst (snd (analyze_document example_world ?file example_analyzer example_sys)),
           snd (snd (analyze_document example_world ?file example_analyzer example_sys)))"
    by simp
  from analyze_document_too_large [OF rd big run] show ?thesis by simp
qed

text \<open>
  C3. An upload to \<^verbatim>\<open>/analyze\<close> whose payload is within the size limit and is not
  valid UTF-8 is answered with status 400 and the body
  \<^verbatim>\<open>{"error": "File must be a valid text document"}\<close>; the vector index is as it
  was, nothing is written to the persisted index, and no call reaches the splitter, the
  index or the chain.
\<close>

theorem analyze_document_not_utf8:
  assumes "file_read file = Inr bytes"
      and "length bytes \<le> 10485760"
      and "\<not> valid_utf8 bytes"
      and "analyze_document w file a s = (r, a', s')"
  shows "r = Inr \<lparr>status_code = 400,
                   content = JObj [(''error'', JStr ''File must be a valid text document'')]\<rparr>
       \<and> vector_store a' = vector_store a
       \<and> disk s' = disk s
       \<and> calls s' = calls s"
  using assms
  by (auto simp: analyze_document_unfold JSONResponse_def error_body_def logger_debug_def)

theorem analyze_document_not_utf8_witness:
  "fst (analyze_document example_world
          \<lparr>filename = ''latin1.txt'', file_read = Inr [0x63, 0x61, 0x66, 0xE9]\<rparr>
          example_analyzer example_sys) =
     Inr \<lparr>status_code = 400,
          content = JObj [(''error'', JStr ''File must be a valid text document'')]\<rparr>"
proof -
  let ?file = "\<lparr>filename = ''latin1.txt'', file_read = Inr [0x63, 0x61, 0x66, 0xE9 :: 8 word]\<rparr>"
  have rd: "file_read ?file = Inr [0x63, 0x61, 0x66, 0xE9]" by simp
  have small: "length [0x63, 0x61, 0x66, 0xE9 :: 8 word] \<le> 10485760" by simp
  have bad: "\<not> valid_utf8 [0x63, 0x61, 0x66, 0xE9]" by simp
  have run: "analyze_document example_world ?file example_analyzer example_sys =
          (fst (analyze_document example_world ?file example_analyzer example_sys),
           fst (snd (analyze_document example_world ?file example_analyzer example_sys)),
           snd (snd (analyze_document example_world ?file example_analyzer example_sys)))"
    by simp
  from analyze_document_not_utf8 [OF rd small bad run] show ?thesis by simp
qed

subsection \<open>Ingestion: the outcome at each step\<close>

lemma new_docs_replicate:
  "new_docs chunks (replicate (length chunks) md) =
     map (\<lambda>c. \<lparr>page_content = c, doc_metadata = md\<rparr>) chunks"
  using new_docs_const [of chunks md] by (simp only: map_const_replicate)

lemma process_document_split_raises:
  assumes "split_text w 1000 200 text = Inl e"
  shows "process_document w text md a s =
           (Inl e, a, logger_error (''Error processing document: '' @ str e)
                        (s\<lparr>calls := calls s @ [SplitText 1000 200 text]\<rparr>))"
  by (simp add: process_document_def process_document_try_split_raises [OF assms])

lemma process_document_add_raises:
  assumes "split_text w 1000 200 text = Inr chunks"
      and "add_texts_raises w chunks = Some e"
  shows "process_document w text md a s =
           (Inl e, a, logger_error (''Error processing document: '' @ str e)
              (s\<lparr>calls := calls s @ [SplitText 1000 200 text,
                                       AddTexts chunks (replicate (length chunks) md)]\<rparr>))"
  using assms(2)
  by (simp add: process_document_def process_document_try_cases [OF assms(1)] Let_def
        map_const_replicate)

lemma process_document_save_raises:
  assumes "split_text w 1000 200 text = Inr chunks"
      and "add_texts_raises w chunks = None"
      and "save_local_raises w ''vectorstore''
             (vector_store a @ map (\<lambda>c. \<lparr>page_content = c, doc_metadata = md\<rparr>) chunks) = Some e"
  shows "process_document w text md a s =
           (Inl e,
            a\<lparr>vector_store :=
                vector_store a @ map (\<lambda>c. \<lparr>page_content = c, doc_metadata = md\<rparr>) chunks\<rparr>,
            logger_error (''Error processing document: '' @ str e)
              (s\<lparr>calls := calls s @ [SplitText 1000 200 text,
                                       AddTexts chunks (replicate (length chunks) md),
                                       SaveLocal ''vectorstore'']\<rparr>))"
  using assms(2,3)
  by (simp add: process_document_def process_document_try_cases [OF assms(1)] Let_def
        map_const_replicate new_docs_replicate)

lemma process_document_qa_raises:
  assumes "split_text w 1000 200 text = Inr chunks"
      and "add_texts_raises w chunks = None"
      and "save_local_raises w ''vectorstore''
             (vector_store a @ map (\<lambda>c. \<lparr>page_content = c, doc_metadata = md\<rparr>) chunks) = None"
      and "qa_run w (vector_store a @ map (\<lambda>c. \<lparr>page_content = c, doc_metadata = md\<rparr>) chunks)
             summary_question = Inl e"
  shows "process_document w text md a s =
           (Inl e,
            a\<lparr>vector_store :=
                vector_store a @ map (\<lambda>c. \<lparr>page_content = c, doc_metadata = md\<rparr>) chunks\<rparr>,
            logger_error (''Error processing document: '' @ str e)
              (s\<lparr>disk := (disk s)(''vectorstore'' \<mapsto>
                     vector_store a @ map (\<lambda>c. \<lparr>page_content = c, doc_metadata = md\<rparr>) chunks),
                 calls := calls s @ [SplitText 1000 200 text,
                                       AddTexts chunks (replicate (length chunks) md),
                                       SaveLocal ''vectorstore'', QaRun summary_question]\<rparr>))"
  using assms(2,3,4)
  by (simp add: process_document_def process_document_try_cases [OF assms(1)] Let_def
        map_const_replicate new_docs_replicate)

lemma process_document_succeeds:
  assumes "split_text w 1000 200 text = Inr chunks"
      and "add_texts_raises w chunks = None"
      and "save_local_raises w ''vectorstore''
             (vector_store a @ map (\<lambda>c. \<lparr>page_content = c, doc_metadata = md\<rparr>) chunks) = None"
      and "qa_run w (vector_store a @ map (\<lambda>c. \<lparr>page_content = c, doc_metadata = md\<rparr>) chunks)
             summary_question = Inr analysis"
  shows "process_document w text md a s =
           (Inr (result_dict (now_result w) md analysis),
            a\<lparr>vector_store :=
                vector_store a @ map (\<lambda>c. \<lparr>page_content = c, doc_metadata = md\<rparr>) chunks\<rparr>,
            s\<lparr>disk := (disk s)(''vectorstore'' \<mapsto>
                     vector_store a @ map (\<lambda>c. \<lparr>page_content = c, doc_metadata = md\<rparr>) chunks),
                 calls := calls s @ [SplitText 1000 200 text,
                                       AddTexts chunks (replicate (length chunks) md),
                                       SaveLocal ''vectorstore'', QaRun summary_question]\<rparr>)"
  using assms(2,3,4)
  by (simp add: process_document_def process_document_try_cases [OF assms(1)] Let_def
        map_const_replicate new_docs_replicate)

text \<open>
  C4. Ingestion calls the splitter, then the insertion into the index, then the
  persisting of the index, then the summarizing chain, in this order: the calls it makes
  are a non-empty initial part of this sequence (the splitter alone when the splitter
  raises), and all four when it succeeds. It is not
  atomic: when persisting raises after the chunks were inserted, the inserted chunks are in
  the in-memory index, the directory on disk is as before, and the exception is raised
  again to the caller after an error line \<^verbatim>\<open>Error processing document\<close> in the log.
\<close>

theorem process_document_order_no_rollback:
  assumes "process_document w text md a s = (r, a', s')"
  shows "(\<forall>chunks. split_text w 1000 200 text = Inr chunks \<longrightarrow>
            (\<exists>cs. calls s' = calls s @ cs \<and> cs \<noteq> []
                \<and> prefix cs [SplitText 1000 200 text,
                              AddTexts chunks (replicate (length chunks) md),
                              SaveLocal ''vectorstore'',
                              QaRun summary_question]
                \<and> (\<forall>result. r = Inr result \<longrightarrow>
                      cs = [SplitText 1000 200 text,
                            AddTexts chunks (replicate (length chunks) md),
                            SaveLocal ''vectorstore'',
                            QaRun summary_question])))
       \<and> (\<forall>chunks e. split_text w 1000 200 text = Inr chunks
              \<and> add_texts_raises w chunks = None
              \<and> save_local_raises w ''vectorstore''
                   (vector_store a @ map (\<lambda>c. \<lparr>page_content = c, doc_metadata = md\<rparr>) chunks)
                  = Some e \<longrightarrow>
            r = Inl e
          \<and> vector_store a' =
              vector_store a @ map (\<lambda>c. \<lparr>page_content = c, doc_metadata = md\<rparr>) chunks
          \<and> disk s' = disk s
          \<and> calls s' = calls s @ [SplitText 1000 200 text,
                                   AddTexts chunks (replicate (length chunks) md),
                                   SaveLocal ''vectorstore'']
          \<and> log s' = log s @ [(ERROR, ''Error processing document: '' @ str e)])
       \<and> (\<forall>e. split_text w 1000 200 text = Inl e \<longrightarrow>
            r = Inl e \<and> calls s' = calls s @ [SplitText 1000 200 text])"
proof (intro conjI allI impI)
  fix e
  assume "split_text w 1000 200 text = Inl e"
  note eq = process_document_split_raises [OF this, of md a s]
  from eq assms show "r = Inl e" by simp
  from eq assms show "calls s' = calls s @ [SplitText 1000 200 text]"
    by (auto simp: logger_error_def)
next
  fix chunks
  assume sp: "split_text w 1000 200 text = Inr chunks"
  let ?store = "vector_store a @ map (\<lambda>c. \<lparr>page_content = c, doc_metadata = md\<rparr>) chunks"
  let ?all = "[SplitText 1000 200 text, AddTexts chunks (replicate (length chunks) md),
               SaveLocal ''vectorstore'', QaRun summary_question]"
  show "\<exists>cs. calls s' = calls s @ cs \<and> cs \<noteq> [] \<and> prefix cs ?all
             \<and> (\<forall>result. r = Inr result \<longrightarrow> cs = ?all)"
  proof (cases "add_texts_raises w chunks")
    case (Some e)
    from process_document_add_raises [OF sp Some, of md a s] assms
    have "calls s' = calls s @ take 2 ?all" and "r = Inl e"
      by (auto simp: logger_error_def)
    then show ?thesis by (intro exI [of _ "take 2 ?all"]) simp
  next
    case None
    show ?thesis
    proof (cases "save_local_raises w ''vectorstore'' ?store")
      case (Some e)
      from process_document_save_raises [OF sp None Some, of s] assms
      have "calls s' = calls s @ take 3 ?all" and "r = Inl e"
        by (auto simp: logger_error_def)
      then show ?thesis by (intro exI [of _ "take 3 ?all"]) simp
    next
      case ok: None
      show ?thesis
      proof (cases "qa_run w ?store summary_question")
        case (Inl e)
        from process_document_qa_raises [OF sp None ok Inl, of s] assms
        have "calls s' = calls s @ ?all"
          by (auto simp: logger_error_def)
        then show ?thesis by (intro exI [of _ ?all]) simp
      next
        case (Inr analysis)
        from process_document_succeeds [OF sp None ok Inr, of s] assms
        have "calls s' = calls s @ ?all"
          by auto
        then show ?thesis by (intro exI [of _ ?all]) simp
      qed
    qed
  qed
next
  fix chunks e
  assume h: "split_text w 1000 200 text = Inr chunks
              \<and> add_texts_raises w chunks = None
              \<and> save_local_raises w ''vectorstore''
                   (vector_store a @ map (\<lambda>c. \<lparr>page_content = c, doc_metadata = md\<rparr>) chunks)
                  = Some e"
  then have sp: "split_text w 1000 200 text = Inr chunks"
    and ad: "add_texts_raises w chunks = None"
    and sv: "save_local_raises w ''vectorstore''
                   (vector_store a @ map (\<lambda>c. \<lparr>page_content = c, doc_metadata = md\<rparr>) chunks)
                  = Some e"
    by simp_all
  note eq = process_document_save_raises [OF sp ad sv, of s]
  from eq assms show "r = Inl e" by simp
  from eq assms show "vector_store a' =
      vector_store a @ map (\<lambda>c. \<lparr>page_content = c, doc_metadata = md\<rparr>) chunks"
    by auto
  from eq assms show "disk s' = disk s" by (auto simp: logger_error_def)
  from eq assms show "calls s' = calls s @ [SplitText 1000 200 text,
                                   AddTexts chunks (replicate (length chunks) md),
                                   SaveLocal ''vectorstore'']"
    by (auto simp: logger_error_def)
  from eq assms show "log s' = log s @ [(ERROR, ''Error processing document: '' @ str e)]"
    by (auto simp: logger_error_def)
qed

theorem process_document_order_no_rollback_witness:
  "fst (process_document (example_world\<lparr>save_local_raises := \<lambda>folder store. Some (Exception ''No space left on device'')\<rparr>)
          ''abcdef'' example_metadata example_analyzer example_sys) =
     Inl (Exception ''No space left on device'')
   \<and> vector_store (fst (snd (process_document (example_world\<lparr>save_local_raises := \<lambda>folder store. Some (Exception ''No space left on device'')\<rparr>)
          ''abcdef'' example_metadata example_analyzer example_sys))) =
     [\<lparr>page_content = ''initialization'', doc_metadata = []\<rparr>,
      \<lparr>page_content = ''abcd'', doc_metadata = example_metadata\<rparr>,
      \<lparr>page_content = ''cdef'', doc_metadata = example_metadata\<rparr>]
   \<and> disk (snd (snd (process_document (example_world\<lparr>save_local_raises := \<lambda>folder store. Some (Exception ''No space left on device'')\<rparr>)
          ''abcdef'' example_metadata example_analyzer example_sys))) ''vectorstore'' = None"
proof -
  let ?w = "example_world\<lparr>save_local_raises :=
              \<lambda>folder store. Some (Exception ''No space left on device'')\<rparr>"
  let ?run = "process_document ?w ''abcdef'' example_metadata example_analyzer example_sys"
  have run: "?run = (fst ?run, fst (snd ?run), snd (snd ?run))"
    by simp
  have sp: "split_text ?w 1000 200 ''abcdef'' = Inr [''abcd'', ''cdef'']"
    by (simp add: example_world_def)
  have ad: "add_texts_raises ?w [''abcd'', ''cdef''] = None"
    by (simp add: example_world_def)
  have sv: "save_local_raises ?w ''vectorstore''
              (vector_store example_analyzer @
               map (\<lambda>c. \<lparr>page_content = c, doc_metadata = example_metadata\<rparr>) [''abcd'', ''cdef''])
            = Some (Exception ''No space left on device'')"
    by simp
  from process_document_order_no_rollback [OF run] sp ad sv
  have "fst ?run = Inl (Exception ''No space left on device'')
      \<and> vector_store (fst (snd ?run)) =
          vector_store example_analyzer @
            map (\<lambda>c. \<lparr>page_content = c, doc_metadata = example_metadata\<rparr>) [''abcd'', ''cdef'']
      \<and> disk (snd (snd ?run)) = disk example_sys"
    by blast
  then show ?thesis by (simp add: example_analyzer_def example_sys_def)
qed

subsection \<open>Ingestion: the summary\<close>

text \<open>
  C5, as the code has it. After the chunks are inserted and the index is persisted,
  ingestion asks one question, the fixed string
  \<^verbatim>\<open>Provide a brief summary of the main topics in this document.\<close>, of a chain whose
  retriever is over the whole index (the documents held before together with the new ones).
  When the chain answers, the result holds the answer under \<^verbatim>\<open>analysis\<close>, the status
  \<^verbatim>\<open>success\<close>, a timestamp and the submitted metadata; when it raises, the exception
  is the outcome.
\<close>

theorem process_document_summary:
  assumes "split_text w 1000 200 text = Inr chunks"
      and "add_texts_raises w chunks = None"
      and "save_local_raises w ''vectorstore''
             (vector_store a @ map (\<lambda>c. \<lparr>page_content = c, doc_metadata = md\<rparr>) chunks) = None"
      and "process_document w text md a s = (r, a', s')"
  shows "calls s' = calls s @
           [SplitText 1000 200 text,
            AddTexts chunks (replicate (length chunks) md),
            SaveLocal ''vectorstore'',
            QaRun ''Provide a brief summary of the main topics in this document.'']
       \<and> vector_store a' =
           vector_store a @ map (\<lambda>c. \<lparr>page_content = c, doc_metadata = md\<rparr>) chunks
       \<and> (\<forall>analysis.
             qa_run w (vector_store a')
               ''Provide a brief summary of the main topics in this document.'' = Inr analysis \<longrightarrow>
             r = Inr (JObj [(''status'', JStr ''success''),
                            (''timestamp'', JStr (now_result w)),
                            (''metadata'', JObj (map (\<lambda>(k, v). (k, JStr v)) md)),
                            (''analysis'', JStr analysis)]))
       \<and> (\<forall>e. qa_run w (vector_store a')
               ''Provide a brief summary of the main topics in this document.'' = Inl e \<longrightarrow>
             r = Inl e)"
proof (cases "qa_run w (vector_store a @ map (\<lambda>c. \<lparr>page_content = c, doc_metadata = md\<rparr>) chunks)
                summary_question")
  case (Inl e)
  from process_document_qa_raises [OF assms(1,2,3) Inl, of s] assms(4) Inl
  show ?thesis
    by (auto simp: logger_error_def summary_question_def)
next
  case (Inr analysis)
  from process_document_succeeds [OF assms(1,2,3) Inr, of s] assms(4) Inr
  show ?thesis
    by (auto simp: result_dict_def summary_question_def)
qed

theorem process_document_summary_witness:
  "fst (process_document example_world ''abcdef'' example_metadata example_analyzer example_sys) =
     Inr (JObj [(''status'', JStr ''success''),
                (''timestamp'', JStr ''2024-05-01T10:00:02''),
                (''metadata'', JObj [(''filename'', JStr ''a.txt''),
                                     (''timestamp'', JStr ''2024-05-01T10:00:00''),
                                     (''version'', JStr ''1.0'')]),
                (''analysis'', JStr ''Two topics.'')])"
proof -
  let ?run = "process_document example_world ''abcdef'' example_metadata example_analyzer
                example_sys"
  have run: "?run = (fst ?run, fst (snd ?run), snd (snd ?run))"
    by simp
  have sp: "split_text example_world 1000 200 ''abcdef'' = Inr [''abcd'', ''cdef'']"
    by (simp add: example_world_def)
  have ad: "add_texts_raises example_world [''abcd'', ''cdef''] = None"
    by (simp add: example_world_def)
  have sv: "save_local_raises example_world ''vectorstore''
              (vector_store example_analyzer @
               map (\<lambda>c. \<lparr>page_content = c, doc_metadata = example_metadata\<rparr>) [''abcd'', ''cdef''])
            = None"
    by (simp add: example_world_def)
  have qa: "qa_run example_world (vector_store (fst (snd ?run)))
              ''Provide a brief summary of the main topics in this document.'' = Inr ''Two topics.''"
    by (simp add: example_world_def)
  from process_document_summary [OF sp ad sv run] qa
  have "fst ?run = Inr (JObj [(''status'', JStr ''success''),
                            (''timestamp'', JStr (now_result example_world)),
                            (''metadata'', JObj (map (\<lambda>(k, v). (k, JStr v)) example_metadata)),
                            (''analysis'', JStr ''Two topics.'')])"
    by blast
  then show ?thesis by (simp add: example_world_def example_metadata_def)
qed

text \<open>
  The question is not the string \<^verbatim>\<open>provide a brief summary of the main topics\<close>: a
  successful ingestion makes no call with it.
\<close>

theorem process_document_summary_counterexample:
  "fst (process_document example_world ''abcdef'' example_metadata example_analyzer example_sys) =
     Inr (result_dict ''2024-05-01T10:00:02'' example_metadata ''Two topics.'')
   \<and> QaRun ''provide a brief summary of the main topics''
       \<notin> set (calls (snd (snd (process_document example_world ''abcdef'' example_metadata
                                  example_analyzer example_sys))))"
  by (simp add: process_document_def process_document_try_def lib_defs example_defs
        summary_question_def)

subsection \<open>The upload handler: a failure after the index was changed\<close>

lemma analyze_document_decoded:
  assumes "file_read file = Inr bytes"
      and "length bytes \<le> 10485760"
      and "decode bytes = Inr text"
  shows "analyze_document w file a s =
          (case process_document w text (upload_metadata w file) a
                    (logger_debug (''Received file: '' @ filename file) s) of
               (Inr result, a', s') \<Rightarrow> (Inr (JSONResponse 200 result), a', s')
             | (Inl e, a', s') \<Rightarrow>
                 (Inr (JSONResponse 500 (error_body (''Error processing document: '' @ str e))),
                  a', logger_error (''Error processing document: '' @ str e) s'))"
  using assms
  by (simp add: analyze_document_def analyze_document_try_def
      split: sum.splits prod.splits exn.splits)

text \<open>
  C10. A response with status 500 from \<^verbatim>\<open>/analyze\<close> does not mean that the index is
  as it was. When the chunks were inserted and the index was persisted and the summarizing
  chain then raises, the response is the 500 processing error, and the chunks of the
  document are in the in-memory index and in the index persisted at \<^verbatim>\<open>vectorstore\<close>.
\<close>

theorem analyze_document_500_after_mutation:
  assumes "file_read file = Inr bytes"
      and "length bytes \<le> 10485760"
      and "decode bytes = Inr text"
      and "split_text w 1000 200 text = Inr chunks"
      and "add_texts_raises w chunks = None"
      and "save_local_raises w ''vectorstore''
             (vector_store a @
              map (\<lambda>c. \<lparr>page_content = c, doc_metadata = upload_metadata w file\<rparr>) chunks) = None"
      and "qa_run w
             (vector_store a @
              map (\<lambda>c. \<lparr>page_content = c, doc_metadata = upload_metadata w file\<rparr>) chunks)
             summary_question = Inl e"
      and "analyze_document w file a s = (r, a', s')"
  shows "r = Inr \<lparr>status_code = 500,
                   content = JObj [(''error'', JStr (''Error processing document: '' @ str e))]\<rparr>
       \<and> vector_store a' =
           vector_store a @
           map (\<lambda>c. \<lparr>page_content = c, doc_metadata = upload_metadata w file\<rparr>) chunks
       \<and> disk s' ''vectorstore'' = Some (vector_store a')"
  using assms(8)
  unfolding analyze_document_decoded [OF assms(1,2,3)]
    process_document_qa_raises [OF assms(4,5,6,7)]
  by (auto simp: JSONResponse_def error_body_def logger_error_def)

theorem analyze_document_500_after_mutation_witness:
  "fst (analyze_document
          (example_world\<lparr>qa_run := \<lambda>store question. Inl (Exception ''Rate limit reached'')\<rparr>)
          example_upload example_analyzer example_sys) =
     Inr \<lparr>status_code = 500,
          content = JObj [(''error'', JStr ''Error processing document: Rate limit reached'')]\<rparr>
   \<and> disk (snd (snd (analyze_document
          (example_world\<lparr>qa_run := \<lambda>store question. Inl (Exception ''Rate limit reached'')\<rparr>)
          example_upload example_analyzer example_sys))) ''vectorstore'' =
     Some [\<lparr>page_content = ''initialization'', doc_metadata = []\<rparr>,
           \<lparr>page_content = ''abcd'', doc_metadata = example_metadata\<rparr>,
           \<lparr>page_content = ''cdef'', doc_metadata = example_metadata\<rparr>]"
proof -
  let ?w = "example_world\<lparr>qa_run := \<lambda>store question. Inl (Exception ''Rate limit reached'')\<rparr>"
  let ?run = "analyze_document ?w example_upload example_analyzer example_sys"
  let ?store = "vector_store example_analyzer @
              map (\<lambda>c. \<lparr>page_content = c, doc_metadata = upload_metadata ?w example_upload\<rparr>)
                [''abcd'', ''cdef'']"
  have run: "?run = (fst ?run, fst (snd ?run), snd (snd ?run))"
    by simp
  have rd: "file_read example_upload = Inr [0x61, 0x62, 0x63, 0x64, 0x65, 0x66]"
    by (simp add: example_upload_def)
  have small: "length [0x61, 0x62, 0x63, 0x64, 0x65, 0x66 :: 8 word] \<le> 10485760"
    by simp
  have dec: "decode [0x61, 0x62, 0x63, 0x64, 0x65, 0x66] = Inr ''abcdef''"
    by code_simp
  have sp: "split_text ?w 1000 200 ''abcdef'' = Inr [''abcd'', ''cdef'']"
    by (simp add: example_world_def)
  have ad: "add_texts_raises ?w [''abcd'', ''cdef''] = None"
    by (simp add: example_world_def)
  have sv: "save_local_raises ?w ''vectorstore'' ?store = None"
    by (simp add: example_world_def)
  have qa: "qa_run ?w ?store summary_question = Inl (Exception ''Rate limit reached'')"
    by simp
  have md: "upload_metadata ?w example_upload = example_metadata"
    by (simp add: upload_metadata_def example_defs)
  from analyze_document_500_after_mutation [OF rd small dec sp ad sv qa run]
  show ?thesis
    by (simp add: md example_analyzer_def)
qed

subsection \<open>The index only grows\<close>

lemma process_document_result_cases:
  "fst (process_document w text md a s) =
     (case split_text w 1000 200 text of
        Inl e \<Rightarrow> Inl e
      | Inr chunks \<Rightarrow>
     (case add_texts_raises w chunks of
        Some e \<Rightarrow> Inl e
      | None \<Rightarrow>
     (case save_local_raises w ''vectorstore''
             (vector_store a @ map (\<lambda>c. \<lparr>page_content = c, doc_metadata = md\<rparr>) chunks) of
        Some e \<Rightarrow> Inl e
      | None \<Rightarrow>
     (case qa_run w (vector_store a @ map (\<lambda>c. \<lparr>page_content = c, doc_metadata = md\<rparr>) chunks)
             summary_question of
        Inl e \<Rightarrow> Inl e
      | Inr analysis \<Rightarrow> Inr (result_dict (now_result w) md analysis)))))"
  by (auto simp: process_document_split_raises process_document_add_raises
        process_document_save_raises process_document_qa_raises process_document_succeeds
      split: sum.splits option.splits)

lemma process_document_store_cases:
  "vector_store (fst (snd (process_document w text md a s))) =
     (case split_text w 1000 200 text of
        Inl e \<Rightarrow> vector_store a
      | Inr chunks \<Rightarrow>
     (case add_texts_raises w chunks of
        Some e \<Rightarrow> vector_store a
      | None \<Rightarrow>
          vector_store a @ map (\<lambda>c. \<lparr>page_content = c, doc_metadata = md\<rparr>) chunks))"
proof (cases "split_text w 1000 200 text")
  case (Inl e)
  then show ?thesis by (simp add: process_document_split_raises)
next
  case sp: (Inr chunks)
  let ?store = "vector_store a @ map (\<lambda>c. \<lparr>page_content = c, doc_metadata = md\<rparr>) chunks"
  show ?thesis
  proof (cases "add_texts_raises w chunks")
    case (Some e)
    with sp show ?thesis by (simp add: process_document_add_raises)
  next
    case ad: None
    show ?thesis
    proof (cases "save_local_raises w ''vectorstore'' ?store")
      case (Some e)
      with sp ad show ?thesis by (simp add: process_document_save_raises)
    next
      case sv: None
      show ?thesis
      proof (cases "qa_run w ?store summary_question")
        case (Inl e)
        with sp ad sv show ?thesis by (simp add: process_document_qa_raises)
      next
        case (Inr analysis)
        with sp ad sv show ?thesis by (simp add: process_document_succeeds)
      qed
    qed
  qed
qed

lemma process_document_prefix:
  "prefix (vector_store a) (vector_store (fst (snd (process_document w text md a s))))"
  by (simp add: process_document_store_cases split: sum.splits option.splits)

lemma analyze_document_store:
  "vector_store (fst (snd (analyze_document w file a s))) =
     (case file_read file of
        Inl e \<Rightarrow> vector_store a
      | Inr bytes \<Rightarrow>
          if 10485760 < length bytes \<or> \<not> valid_utf8 bytes then vector_store a
          else vector_store (fst (snd
                 (process_document w (map (\<lambda>b. char_of (unat b)) bytes) (upload_metadata w file)
                    a (logger_debug (''Received file: '' @ filename file) s)))))"
  by (simp add: analyze_document_unfold split: sum.splits prod.splits)

lemma analyze_document_prefix:
  "prefix (vector_store a) (vector_store (fst (snd (analyze_document w file a s))))"
  unfolding analyze_document_store
  by (simp add: process_document_prefix split: sum.splits)

lemma query_documents_store:
  "fst (snd (query_documents w question a s)) = a"
  by (simp add: query_documents_def RetrievalQA_run_def split: sum.splits)

lemma handle_prefix:
  "prefix (vector_store a) (vector_store (fst (snd (handle w r a s))))"
  by (cases r) (simp_all add: analyze_document_prefix query_documents_store)

lemma serve_prefix:
  "prefix (vector_store (fst st)) (vector_store (fst (serve reqs st)))"
proof (induction reqs arbitrary: st)
  case Nil
  show ?case by simp
next
  case (Cons wr reqs)
  obtain w r where wr: "wr = (w, r)" by (cases wr)
  obtain a s where st: "st = (a, s)" by (cases st)
  have "prefix (vector_store a) (vector_store (fst (snd (handle w r a s))))"
    by (rule handle_prefix)
  also have "prefix \<dots> (vector_store (fst (serve reqs (snd (handle w r a s)))))"
    by (rule Cons.IH)
  finally show ?case by (simp add: wr st)
qed

text \<open>
  C9. The vector index grows monotonically under the operations of the service: after a
  request to \<^verbatim>\<open>/analyze\<close> the index held before is an initial part of the index held
  after (documents are appended, none is removed or changed), a request to
  \<^verbatim>\<open>/query\<close> leaves the index as it is, and so the index at any moment is an initial
  part of the index after any further sequence of requests.
\<close>

theorem index_grows_monotonically:
  "prefix (vector_store a) (vector_store (fst (snd (analyze_document w file a s))))
   \<and> vector_store (fst (snd (query_documents w question a s))) = vector_store a
   \<and> prefix (vector_store a) (vector_store (fst (serve reqs (a, s))))"
  using analyze_document_prefix [of a w "file" s] serve_prefix [of "(a, s)" reqs]
  by (simp add: query_documents_store)

subsection \<open>The handlers turn exceptions into responses\<close>

lemma query_documents_result:
  "fst (query_documents w question a s) =
     (case qa_run w (vector_store a) question of
        Inr answer \<Rightarrow> Inr (JSONResponse 200 (query_body question answer))
      | Inl e \<Rightarrow> Inr (JSONResponse 500 (error_body (''Error querying documents: '' @ str e))))"
  by (simp add: query_documents_def RetrievalQA_run_def split: sum.splits)

lemma analyze_document_returns:
  "\<exists>resp. fst (analyze_document w file a s) = Inr resp"
  by (simp add: analyze_document_def split: prod.splits sum.splits)

lemma analyze_document_pipeline_raises:
  assumes "file_read file = Inr bytes"
      and "length bytes \<le> 10485760"
      and "decode bytes = Inr text"
      and "fst (process_document w text (upload_metadata w file) a s) = Inl e"
  shows "fst (analyze_document w file a s) =
           Inr (JSONResponse 500 (error_body (''Error processing document: '' @ str e)))"
proof -
  let ?s0 = "logger_debug (''Received file: '' @ filename file) s"
  have "fst (process_document w text (upload_metadata w file) a ?s0) =
        fst (process_document w text (upload_metadata w file) a s)"
    by (simp only: process_document_result_cases)
  with assms(4) have "fst (process_document w text (upload_metadata w file) a ?s0) = Inl e"
    by simp
  then show ?thesis
    unfolding analyze_document_decoded [OF assms(1,2,3)]
    by (auto split: prod.splits sum.splits)
qed

text \<open>
  C8. When the ingestion pipeline raises an exception \<open>e\<close> (its outcome does not depend
  on the log, so it is taken at the state of the request), \<^verbatim>\<open>/analyze\<close> answers with
  status 500 and the body \<^verbatim>\<open>{"error": "Error processing document: " + str(e)}\<close>; when
  the chain of \<^verbatim>\<open>/query\<close> raises \<open>e\<close>, the answer is status 500 with the body
  \<^verbatim>\<open>{"error": "Error querying documents: " + str(e)}\<close>. The body has the single key
  \<^verbatim>\<open>error\<close>. Both handlers return a response in every case: no exception escapes.
\<close>

theorem handlers_convert_exceptions:
  "(\<forall>bytes text e.
      file_read file = Inr bytes \<and> length bytes \<le> 10485760 \<and> decode bytes = Inr text
      \<and> fst (process_document w text (upload_metadata w file) a s) = Inl e \<longrightarrow>
      fst (analyze_document w file a s) =
        Inr \<lparr>status_code = 500,
             content = JObj [(''error'', JStr (''Error processing document: '' @ str e))]\<rparr>)
   \<and> (\<forall>e. qa_run w (vector_store a) question = Inl e \<longrightarrow>
      fst (query_documents w question a s) =
        Inr \<lparr>status_code = 500,
             content = JObj [(''error'', JStr (''Error querying documents: '' @ str e))]\<rparr>)
   \<and> (\<exists>resp. fst (analyze_document w file a s) = Inr resp)
   \<and> (\<exists>resp. fst (query_documents w question a s) = Inr resp)"
proof -
  have "fst (analyze_document w file a s) =
        Inr \<lparr>status_code = 500,
             content = JObj [(''error'', JStr (''Error processing document: '' @ str e))]\<rparr>"
    if "file_read file = Inr bytes \<and> length bytes \<le> 10485760 \<and> decode bytes = Inr doc_text
      \<and> fst (process_document w doc_text (upload_metadata w file) a s) = Inl e"
    for bytes doc_text e
    using that analyze_document_pipeline_raises [of "file" bytes doc_text w a s e]
    by (simp add: JSONResponse_def error_body_def)
  moreover
  have "fst (query_documents w question a s) =
        Inr \<lparr>status_code = 500,
             content = JObj [(''error'', JStr (''Error querying documents: '' @ str e))]\<rparr>"
    if "qa_run w (vector_store a) question = Inl e" for e
    using that by (simp add: query_documents_result JSONResponse_def error_body_def)
  moreover
  have "\<exists>resp. fst (analyze_document w file a s) = Inr resp"
    by (rule analyze_document_returns)
  moreover
  have "\<exists>resp. fst (query_documents w question a s) = Inr resp"
    by (simp add: query_documents_result split: sum.splits)
  ultimately show ?thesis by blast
qed

theorem handlers_convert_exceptions_witness:
  "fst (analyze_document
          (example_world\<lparr>add_texts_raises := \<lambda>texts. Some (Exception ''Connection error.'')\<rparr>)
          example_upload example_analyzer example_sys) =
     Inr \<lparr>status_code = 500,
          content = JObj [(''error'', JStr ''Error processing document: Connection error.'')]\<rparr>
   \<and> fst (query_documents
          (example_world\<lparr>qa_run := \<lambda>store question. Inl (Exception ''Rate limit reached'')\<rparr>)
          ''What is this about?'' example_analyzer example_sys) =
     Inr \<lparr>status_code = 500,
          content = JObj [(''error'', JStr ''Error querying documents: Rate limit reached'')]\<rparr>"
proof -
  let ?w1 = "example_world\<lparr>add_texts_raises := \<lambda>texts. Some (Exception ''Connection error.'')\<rparr>"
  let ?w2 = "example_world\<lparr>qa_run := \<lambda>store question. Inl (Exception ''Rate limit reached'')\<rparr>"
  have rd: "file_read example_upload = Inr [0x61, 0x62, 0x63, 0x64, 0x65, 0x66]"
    by (simp add: example_upload_def)
  have small: "length [0x61, 0x62, 0x63, 0x64, 0x65, 0x66 :: 8 word] \<le> 10485760"
    by simp
  have dec: "decode [0x61, 0x62, 0x63, 0x64, 0x65, 0x66] = Inr ''abcdef''"
    by code_simp
  have pd: "fst (process_document ?w1 ''abcdef'' (upload_metadata ?w1 example_upload)
                   example_analyzer example_sys) = Inl (Exception ''Connection error.'')"
    by (simp add: process_document_result_cases example_world_def)
  have qa: "qa_run ?w2 (vector_store example_analyzer) ''What is this about?''
              = Inl (Exception ''Rate limit reached'')"
    by simp
  from handlers_convert_exceptions [of example_upload ?w1 example_analyzer example_sys]
    rd small dec pd
  have "fst (analyze_document ?w1 example_upload example_analyzer example_sys) =
     Inr \<lparr>status_code = 500,
          content = JObj [(''error'', JStr (''Error processing document: '' @
                             str (Exception ''Connection error.'')))]\<rparr>"
    by blast
  moreover
  from handlers_convert_exceptions [of example_upload ?w2 example_analyzer example_sys
      "''What is this about?''"] qa
  have "fst (query_documents ?w2 ''What is this about?'' example_analyzer example_sys) =
     Inr \<lparr>status_code = 500,
          content = JObj [(''error'', JStr (''Error querying documents: '' @
                             str (Exception ''Rate limit reached'')))]\<rparr>"
    by blast
  ultimately show ?thesis by simp
qed

subsection \<open>Startup: the vector index\<close>

lemma initialize_vector_store_load:
  assumes "disk s ''vectorstore'' = Some docs"
  shows "initialize_vector_store w s =
           (case load_local_raises w ''vectorstore'' of
              Some e \<Rightarrow> (Inl e, logger_error (''Error initializing vector store: '' @ str e)
                                   (record_call (LoadLocal ''vectorstore'') s))
            | None \<Rightarrow> (Inr docs, record_call (LoadLocal ''vectorstore'') s))"
  using assms
  by (simp add: initialize_vector_store_def initialize_vector_store_try_def path_exists_def
        load_local_def split: option.splits)

lemma initialize_vector_store_seed:
  assumes "disk s ''vectorstore'' = None"
  shows "initialize_vector_store w s =
           (case from_texts_raises w [''initialization''] of
              Some e \<Rightarrow> (Inl e, logger_error (''Error initializing vector store: '' @ str e)
                                   (record_call (FromTexts [''initialization'']) s))
            | None \<Rightarrow> (Inr [\<lparr>page_content = ''initialization'', doc_metadata = []\<rparr>],
                        record_call (FromTexts [''initialization'']) s))"
  using assms
  by (simp add: initialize_vector_store_def initialize_vector_store_try_def path_exists_def
        from_texts_def new_docs_def split: option.splits)

lemma initialize_vector_store_nonempty:
  assumes "initialize_vector_store w s = (Inr store, s')"
      and "persisted_nonempty s"
  shows "store \<noteq> []"
proof (cases "disk s ''vectorstore''")
  case None
  with assms(1) show ?thesis
    by (auto simp: initialize_vector_store_seed split: option.splits)
next
  case (Some docs)
  with assms show ?thesis
    by (auto simp: initialize_vector_store_load persisted_nonempty_def split: option.splits)
qed

text \<open>
  C6, as the code has it. At startup, when a persisted index exists at the fixed path
  \<^verbatim>\<open>vectorstore\<close> and loading does not raise, the index of the analyzer is the
  persisted one, as it is; when none exists and the construction does not raise, the index
  is a new one holding exactly one entry, the placeholder \<^verbatim>\<open>initialization\<close> with empty
  metadata. After an initialization that succeeds the index is not empty provided the
  persisted index, when there is one, is not empty.
\<close>

theorem initialize_vector_store_loads_or_seeds:
  "(\<forall>docs. disk s ''vectorstore'' = Some docs \<and> load_local_raises w ''vectorstore'' = None \<longrightarrow>
      initialize_vector_store w s =
        (Inr docs, s\<lparr>calls := calls s @ [LoadLocal ''vectorstore'']\<rparr>))
   \<and> (disk s ''vectorstore'' = None \<and> from_texts_raises w [''initialization''] = None \<longrightarrow>
      initialize_vector_store w s =
        (Inr [\<lparr>page_content = ''initialization'', doc_metadata = []\<rparr>],
         s\<lparr>calls := calls s @ [FromTexts [''initialization'']]\<rparr>))
   \<and> (\<forall>store s'. initialize_vector_store w s = (Inr store, s')
         \<and> (\<forall>docs. disk s ''vectorstore'' = Some docs \<longrightarrow> docs \<noteq> []) \<longrightarrow>
       store \<noteq> [])"
proof -
  have "initialize_vector_store w s =
        (Inr docs, s\<lparr>calls := calls s @ [LoadLocal ''vectorstore'']\<rparr>)"
    if "disk s ''vectorstore'' = Some docs \<and> load_local_raises w ''vectorstore'' = None" for docs
    using that by (simp add: initialize_vector_store_load record_call_def)
  moreover
  have "initialize_vector_store w s =
        (Inr [\<lparr>page_content = ''initialization'', doc_metadata = []\<rparr>],
         s\<lparr>calls := calls s @ [FromTexts [''initialization'']]\<rparr>)"
    if "disk s ''vectorstore'' = None \<and> from_texts_raises w [''initialization''] = None"
    using that by (simp add: initialize_vector_store_seed record_call_def)
  moreover
  have "store \<noteq> []"
    if "initialize_vector_store w s = (Inr store, s')
         \<and> (\<forall>docs. disk s ''vectorstore'' = Some docs \<longrightarrow> docs \<noteq> [])" for store s'
    using that initialize_vector_store_nonempty [of w s store s']
    by (simp add: persisted_nonempty_def)
  ultimately show ?thesis by blast
qed

theorem initialize_vector_store_loads_or_seeds_witness:
  "fst (initialize_vector_store example_world example_sys) =
     Inr [\<lparr>page_content = ''initialization'', doc_metadata = []\<rparr>]
   \<and> fst (initialize_vector_store example_world
            (example_sys\<lparr>disk := [''vectorstore'' \<mapsto>
               [\<lparr>page_content = ''initialization'', doc_metadata = []\<rparr>,
                \<lparr>page_content = ''abcd'', doc_metadata = example_metadata\<rparr>]]\<rparr>)) =
     Inr [\<lparr>page_content = ''initialization'', doc_metadata = []\<rparr>,
          \<lparr>page_content = ''abcd'', doc_metadata = example_metadata\<rparr>]
   \<and> fst (initialize_vector_store example_world
            (example_sys\<lparr>disk := [''vectorstore'' \<mapsto>
               [\<lparr>page_content = ''initialization'', doc_metadata = []\<rparr>,
                \<lparr>page_content = ''abcd'', doc_metadata = example_metadata\<rparr>]]\<rparr>)) \<noteq> Inr []"
proof -
  let ?docs = "[\<lparr>page_content = ''initialization'', doc_metadata = []\<rparr>,
                \<lparr>page_content = ''abcd'', doc_metadata = example_metadata\<rparr>]"
  let ?s = "example_sys\<lparr>disk := [''vectorstore'' \<mapsto> ?docs]\<rparr>"
  have none: "disk example_sys ''vectorstore'' = None"
    by (simp add: example_sys_def)
  have seed: "from_texts_raises example_world [''initialization''] = None"
    by (simp add: example_world_def)
  have some: "disk ?s ''vectorstore'' = Some ?docs"
    by simp
  have load: "load_local_raises example_world ''vectorstore'' = None"
    by (simp add: example_world_def)
  have inhabited: "\<forall>docs. disk ?s ''vectorstore'' = Some docs \<longrightarrow> docs \<noteq> []"
    by simp
  from initialize_vector_store_loads_or_seeds [of example_sys example_world] none seed
  have fresh: "initialize_vector_store example_world example_sys =
        (Inr [\<lparr>page_content = ''initialization'', doc_metadata = []\<rparr>],
         example_sys\<lparr>calls := calls example_sys @ [FromTexts [''initialization'']]\<rparr>)"
    by blast
  from initialize_vector_store_loads_or_seeds [of ?s example_world] some load
  have loaded: "initialize_vector_store example_world ?s =
        (Inr ?docs, ?s\<lparr>calls := calls ?s @ [LoadLocal ''vectorstore'']\<rparr>)"
    by blast
  from initialize_vector_store_loads_or_seeds [of ?s example_world] loaded inhabited
  have "?docs \<noteq> []"
    by blast
  with fresh loaded show ?thesis by simp
qed

text \<open>
  Without the proviso the index can be empty after initialization: an empty index
  persisted at \<^verbatim>\<open>vectorstore\<close> is loaded as it is.
\<close>

theorem initialize_vector_store_counterexample:
  "initialize_vector_store example_world (example_sys\<lparr>disk := [''vectorstore'' \<mapsto> []]\<rparr>) =
     (Inr [], example_sys\<lparr>disk := [''vectorstore'' \<mapsto> []], calls := [LoadLocal ''vectorstore'']\<rparr>)"
  by (simp add: initialize_vector_store_def initialize_vector_store_try_def path_exists_def
        load_local_def record_call_def example_world_def example_sys_def)

subsection \<open>Startup: the configuration\<close>

lemma load_config_result:
  "fst (load_config w path s) = map_sum id fst (load_config_try w path s)"
  by (simp add: load_config_def split: sum.splits prod.splits)

lemma DocumentAnalyzer_init_config_raises:
  assumes "load_config_try w path s = Inl e"
  shows "DocumentAnalyzer_init w path s =
           (Inl e, logger_error (''Error loading config: '' @ str e) s)"
  using assms by (simp add: DocumentAnalyzer_init_def load_config_def)

lemma load_config_try_Inr:
  assumes "load_config_try w path s = Inr (cfg, s')"
  shows "\<exists>text cred. open_file w path = Inr text \<and> safe_load w text = Inr cfg
           \<and> getitem cfg ''openai_api_key'' = Inr (YStr cred)
           \<and> s' = s\<lparr>environ := (environ s)(''OPENAI_API_KEY'' \<mapsto> cred)\<rparr>"
  using assms
  by (auto simp: load_config_try_def environ_setitem_def split: sum.splits yaml.splits)

lemma setup_llm_state:
  "setup_llm w s = (Inr u, s') \<Longrightarrow> s' = s"
  by (auto simp: setup_llm_def split: option.splits)

lemma initialize_vector_store_environ:
  "environ (snd (initialize_vector_store w s)) = environ s"
  by (simp add: initialize_vector_store_def initialize_vector_store_try_def load_local_def
        from_texts_def record_call_def logger_error_def
      split: option.splits prod.splits sum.splits)

lemma initialize_vector_store_disk:
  "disk (snd (initialize_vector_store w s)) = disk s"
  by (simp add: initialize_vector_store_def initialize_vector_store_try_def load_local_def
        from_texts_def record_call_def logger_error_def
      split: option.splits prod.splits sum.splits)

lemma DocumentAnalyzer_init_Inr:
  assumes "DocumentAnalyzer_init w path s = (Inr a, s')"
  shows "\<exists>s1. load_config_try w path s = Inr (config a, s1)
           \<and> initialize_vector_store w s1 = (Inr (vector_store a), s')"
  using assms
  by (auto simp: DocumentAnalyzer_init_def load_config_def
      split: sum.splits prod.splits dest: setup_llm_state)

text \<open>
  C7. The constructor raises, and no analyzer exists, when the settings file cannot be
  opened (it is missing), when the YAML loader raises on it or gives something that is not
  a mapping (it is malformed), and when the mapping has no key \<^verbatim>\<open>openai_api_key\<close>
  (\<^verbatim>\<open>KeyError\<close>). When \<^verbatim>\<open>load_config\<close> returns, and so whenever the constructor
  returns, the value under that key is a string and the environment variable
  \<^verbatim>\<open>OPENAI_API_KEY\<close> of the process holds it. The module constructs the analyzer with
  the default path when it is imported (\<open>startup\<close>).
\<close>

theorem load_config_fatal_or_exposes:
  "(\<forall>e. open_file w path = Inl e \<longrightarrow> fst (DocumentAnalyzer_init w path s) = Inl e)
   \<and> (\<forall>text e. open_file w path = Inr text \<and> safe_load w text = Inl e \<longrightarrow>
         fst (DocumentAnalyzer_init w path s) = Inl e)
   \<and> (\<forall>text cfg. open_file w path = Inr text \<and> safe_load w text = Inr cfg
         \<and> (\<forall>kvs. cfg \<noteq> YMap kvs) \<longrightarrow>
         (\<exists>m. fst (DocumentAnalyzer_init w path s) = Inl (TypeError m)))
   \<and> (\<forall>text kvs. open_file w path = Inr text \<and> safe_load w text = Inr (YMap kvs)
         \<and> map_of kvs (YStr ''openai_api_key'') = None \<longrightarrow>
         fst (DocumentAnalyzer_init w path s) =
           Inl (KeyError (CHR 0x27 # ''openai_api_key'' @ [CHR 0x27])))
   \<and> (\<forall>cfg s'. load_config w path s = (Inr cfg, s') \<longrightarrow>
         (\<exists>cred. getitem cfg ''openai_api_key'' = Inr (YStr cred)
                \<and> environ s' ''OPENAI_API_KEY'' = Some cred))
   \<and> (\<forall>a s'. DocumentAnalyzer_init w path s = (Inr a, s') \<longrightarrow>
         (\<exists>cred. getitem (config a) ''openai_api_key'' = Inr (YStr cred)
                \<and> environ s' ''OPENAI_API_KEY'' = Some cred))"
proof -
  have "fst (DocumentAnalyzer_init w path s) = Inl e" if "open_file w path = Inl e" for e
  proof -
    from that have "load_config_try w path s = Inl e"
      by (simp add: load_config_try_def)
    then show ?thesis by (simp add: DocumentAnalyzer_init_config_raises)
  qed
  moreover
  have "fst (DocumentAnalyzer_init w path s) = Inl e"
    if "open_file w path = Inr doc_text \<and> safe_load w doc_text = Inl e" for doc_text e
  proof -
    from that have "load_config_try w path s = Inl e"
      by (simp add: load_config_try_def)
    then show ?thesis by (simp add: DocumentAnalyzer_init_config_raises)
  qed
  moreover
  have "\<exists>m. fst (DocumentAnalyzer_init w path s) = Inl (TypeError m)"
    if "open_file w path = Inr doc_text \<and> safe_load w doc_text = Inr cfg
         \<and> (\<forall>kvs. cfg \<noteq> YMap kvs)" for doc_text cfg
  proof -
    from that have "\<exists>m. getitem cfg ''openai_api_key'' = Inl (TypeError m)"
      by (cases cfg) simp_all
    with that have "\<exists>m. load_config_try w path s = Inl (TypeError m)"
      by (auto simp: load_config_try_def)
    then show ?thesis by (auto simp: DocumentAnalyzer_init_config_raises)
  qed
  moreover
  have "fst (DocumentAnalyzer_init w path s) =
           Inl (KeyError (CHR 0x27 # ''openai_api_key'' @ [CHR 0x27]))"
    if "open_file w path = Inr doc_text \<and> safe_load w doc_text = Inr (YMap kvs)
         \<and> map_of kvs (YStr ''openai_api_key'') = None" for doc_text kvs
  proof -
    from that have "load_config_try w path s =
                      Inl (KeyError (CHR 0x27 # ''openai_api_key'' @ [CHR 0x27]))"
      by (simp add: load_config_try_def)
    then show ?thesis by (simp add: DocumentAnalyzer_init_config_raises)
  qed
  moreover
  have "\<exists>cred. getitem cfg ''openai_api_key'' = Inr (YStr cred)
                \<and> environ s' ''OPENAI_API_KEY'' = Some cred"
    if "load_config w path s = (Inr cfg, s')" for cfg s'
  proof -
    from that have "load_config_try w path s = Inr (cfg, s')"
      by (auto simp: load_config_def split: sum.splits)
    from load_config_try_Inr [OF this] show ?thesis by auto
  qed
  moreover
  have "\<exists>cred. getitem (config a) ''openai_api_key'' = Inr (YStr cred)
                \<and> environ s' ''OPENAI_API_KEY'' = Some cred"
    if "DocumentAnalyzer_init w path s = (Inr a, s')" for a s'
  proof -
    from DocumentAnalyzer_init_Inr [OF that] obtain s1 where
      lc: "load_config_try w path s = Inr (config a, s1)"
      and iv: "initialize_vector_store w s1 = (Inr (vector_store a), s')"
      by blast
    from iv initialize_vector_store_environ [of w s1] have "environ s' = environ s1"
      by simp
    with load_config_try_Inr [OF lc] show ?thesis by auto
  qed
  ultimately show ?thesis by blast
qed

theorem load_config_fatal_or_exposes_witness:
  "fst (startup (example_world\<lparr>open_file := \<lambda>path. Inl (Exception ''No such file or directory'')\<rparr>)
          example_sys) = Inl (Exception ''No such file or directory'')
   \<and> fst (startup (example_world\<lparr>safe_load := \<lambda>text. Inl (Exception ''mapping values are not allowed here'')\<rparr>)
          example_sys) = Inl (Exception ''mapping values are not allowed here'')
   \<and> fst (startup (example_world\<lparr>safe_load := \<lambda>text. Inr (YMap [(YStr ''model'', YStr ''gpt-4'')])\<rparr>)
          example_sys) = Inl (KeyError (CHR 0x27 # ''openai_api_key'' @ [CHR 0x27]))
   \<and> environ (snd (startup example_world example_sys)) ''OPENAI_API_KEY'' = Some ''sk-test''"
proof -
  let ?p = "''config/config.yaml''"
  let ?w1 = "example_world\<lparr>open_file := \<lambda>path. Inl (Exception ''No such file or directory'')\<rparr>"
  let ?w2 = "example_world\<lparr>safe_load :=
               \<lambda>text. Inl (Exception ''mapping values are not allowed here'')\<rparr>"
  let ?w3 = "example_world\<lparr>safe_load := \<lambda>text. Inr (YMap [(YStr ''model'', YStr ''gpt-4'')])\<rparr>"
  have o1: "open_file ?w1 ?p = Inl (Exception ''No such file or directory'')"
    by simp
  have o2: "open_file ?w2 ?p = Inr ''openai_api_key: sk-test''"
    by (simp add: example_world_def)
  have l2: "safe_load ?w2 ''openai_api_key: sk-test'' =
              Inl (Exception ''mapping values are not allowed here'')"
    by simp
  have o3: "open_file ?w3 ?p = Inr ''openai_api_key: sk-test''"
    by (simp add: example_world_def)
  have l3: "safe_load ?w3 ''openai_api_key: sk-test'' = Inr (YMap [(YStr ''model'', YStr ''gpt-4'')])"
    by simp
  have k3: "map_of [(YStr ''model'', YStr ''gpt-4'')] (YStr ''openai_api_key'') = None"
    by simp
  have run: "DocumentAnalyzer_init example_world ?p example_sys =
               (Inr \<lparr>config = YMap [(YStr ''openai_api_key'', YStr ''sk-test'')],
                     vector_store = [\<lparr>page_content = ''initialization'', doc_metadata = []\<rparr>]\<rparr>,
                snd (DocumentAnalyzer_init example_world ?p example_sys))"
    by (simp add: DocumentAnalyzer_init_def load_config_def load_config_try_def
          environ_setitem_def setup_llm_def initialize_vector_store_def
          initialize_vector_store_try_def path_exists_def from_texts_def new_docs_def
          record_call_def example_world_def example_sys_def)
  from load_config_fatal_or_exposes [of ?w1 ?p example_sys] o1
  have "fst (DocumentAnalyzer_init ?w1 ?p example_sys) = Inl (Exception ''No such file or directory'')"
    by blast
  moreover
  from load_config_fatal_or_exposes [of ?w2 ?p example_sys] o2 l2
  have "fst (DocumentAnalyzer_init ?w2 ?p example_sys) =
          Inl (Exception ''mapping values are not allowed here'')"
    by blast
  moreover
  from load_config_fatal_or_exposes [of ?w3 ?p example_sys] o3 l3 k3
  have "fst (DocumentAnalyzer_init ?w3 ?p example_sys) =
          Inl (KeyError (CHR 0x27 # ''openai_api_key'' @ [CHR 0x27]))"
    by blast
  moreover
  from load_config_fatal_or_exposes [of example_world ?p example_sys] run
  have "\<exists>cred. getitem (YMap [(YStr ''openai_api_key'', YStr ''sk-test'')]) ''openai_api_key''
                  = Inr (YStr cred)
           \<and> environ (snd (DocumentAnalyzer_init example_world ?p example_sys)) ''OPENAI_API_KEY''
                  = Some cred"
    by (metis analyzer.select_convs(1))
  then have "environ (snd (DocumentAnalyzer_init example_world ?p example_sys)) ''OPENAI_API_KEY''
                  = Some ''sk-test''"
    by simp
  ultimately show ?thesis by (simp add: startup_def)
qed

subsection \<open>What the service persists\<close>

text \<open>
  The proviso of C6 holds for every index that the service has persisted itself: a
  service started where the persisted index, if any, is not empty never holds an empty
  index and never persists one.
\<close>

lemma process_document_disk_cases:
  "disk (snd (snd (process_document w text md a s))) =
     (case split_text w 1000 200 text of
        Inl e \<Rightarrow> disk s
      | Inr chunks \<Rightarrow>
     (case add_texts_raises w chunks of
        Some e \<Rightarrow> disk s
      | None \<Rightarrow>
     (case save_local_raises w ''vectorstore''
             (vector_store a @ map (\<lambda>c. \<lparr>page_content = c, doc_metadata = md\<rparr>) chunks) of
        Some e \<Rightarrow> disk s
      | None \<Rightarrow>
          (disk s)(''vectorstore'' \<mapsto>
             vector_store a @ map (\<lambda>c. \<lparr>page_content = c, doc_metadata = md\<rparr>) chunks))))"
proof (cases "split_text w 1000 200 text")
  case (Inl e)
  then show ?thesis by (simp add: process_document_split_raises logger_error_def)
next
  case sp: (Inr chunks)
  let ?store = "vector_store a @ map (\<lambda>c. \<lparr>page_content = c, doc_metadata = md\<rparr>) chunks"
  show ?thesis
  proof (cases "add_texts_raises w chunks")
    case (Some e)
    with sp show ?thesis by (simp add: process_document_add_raises logger_error_def)
  next
    case ad: None
    show ?thesis
    proof (cases "save_local_raises w ''vectorstore'' ?store")
      case (Some e)
      with sp ad show ?thesis by (simp add: process_document_save_raises logger_error_def)
    next
      case sv: None
      show ?thesis
      proof (cases "qa_run w ?store summary_question")
        case (Inl e)
        with sp ad sv show ?thesis by (simp add: process_document_qa_raises logger_error_def)
      next
        case (Inr analysis)
        with sp ad sv show ?thesis by (simp add: process_document_succeeds)
      qed
    qed
  qed
qed

lemma process_document_persisted:
  "disk (snd (snd (process_document w text md a s))) = disk s
   \<or> disk (snd (snd (process_document w text md a s))) =
       (disk s)(''vectorstore'' \<mapsto> vector_store (fst (snd (process_document w text md a s))))"
  by (simp add: process_document_disk_cases process_document_store_cases
      split: sum.splits option.splits)

lemma analyze_document_disk:
  "disk (snd (snd (analyze_document w file a s))) =
     (case file_read file of
        Inl e \<Rightarrow> disk s
      | Inr bytes \<Rightarrow>
          if 10485760 < length bytes \<or> \<not> valid_utf8 bytes then disk s
          else disk (snd (snd
                 (process_document w (map (\<lambda>b. char_of (unat b)) bytes) (upload_metadata w file)
                    a (logger_debug (''Received file: '' @ filename file) s)))))"
  by (simp add: analyze_document_unfold logger_error_def logger_debug_def
      split: sum.splits prod.splits)

lemma analyze_document_persisted:
  "disk (snd (snd (analyze_document w file a s))) = disk s
   \<or> disk (snd (snd (analyze_document w file a s))) =
       (disk s)(''vectorstore'' \<mapsto> vector_store (fst (snd (analyze_document w file a s))))"
proof -
  have "disk (snd (snd (process_document w doc_text md a s0))) = disk s
   \<or> disk (snd (snd (process_document w doc_text md a s0))) =
       (disk s)(''vectorstore'' \<mapsto> vector_store (fst (snd (process_document w doc_text md a s0))))"
    if "disk s0 = disk s" for doc_text md s0
    using process_document_persisted [of w doc_text md a s0] that by simp
  then show ?thesis
    by (simp add: analyze_document_disk analyze_document_store logger_debug_def
        split: sum.splits)
qed

lemma query_documents_disk:
  "disk (snd (snd (query_documents w question a s))) = disk s"
  by (simp add: query_documents_def RetrievalQA_run_def record_call_def logger_error_def
      split: sum.splits)

lemma handle_persisted:
  "disk (snd (snd (handle w r a s))) = disk s
   \<or> disk (snd (snd (handle w r a s))) =
       (disk s)(''vectorstore'' \<mapsto> vector_store (fst (snd (handle w r a s))))"
  by (cases r) (simp_all add: analyze_document_persisted query_documents_disk)

lemma handle_keeps_nonempty:
  assumes "vector_store a \<noteq> []" and "persisted_nonempty s"
  shows "vector_store (fst (snd (handle w r a s))) \<noteq> []
       \<and> persisted_nonempty (snd (snd (handle w r a s)))"
proof -
  from handle_prefix [of a w r s] assms(1)
  have ne: "vector_store (fst (snd (handle w r a s))) \<noteq> []"
    by (auto simp: prefix_def)
  with handle_persisted [of w r a s] assms(2)
  show ?thesis
    by (auto simp: persisted_nonempty_def split: if_splits)
qed

lemma serve_keeps_nonempty:
  assumes "vector_store (fst st) \<noteq> []" and "persisted_nonempty (snd st)"
  shows "vector_store (fst (serve reqs st)) \<noteq> [] \<and> persisted_nonempty (snd (serve reqs st))"
  using assms
proof (induction reqs arbitrary: st)
  case Nil
  then show ?case by simp
next
  case (Cons wr reqs)
  obtain w r where wr: "wr = (w, r)" by (cases wr)
  obtain a s where st: "st = (a, s)" by (cases st)
  from Cons.prems handle_keeps_nonempty [of a s w r]
  have "vector_store (fst (snd (handle w r a s))) \<noteq> []"
    and "persisted_nonempty (snd (snd (handle w r a s)))"
    by (simp_all add: st)
  from Cons.IH [OF this] show ?case by (simp add: wr st)
qed

lemma load_config_try_disk:
  "load_config_try w path s = Inr (cfg, s') \<Longrightarrow> disk s' = disk s"
  by (auto dest: load_config_try_Inr)

lemma startup_nonempty:
  assumes "persisted_nonempty s" and "startup w s = (Inr a, s')"
  shows "vector_store a \<noteq> [] \<and> persisted_nonempty s'"
proof -
  from assms(2) have "DocumentAnalyzer_init w ''config/config.yaml'' s = (Inr a, s')"
    by (simp add: startup_def)
  from DocumentAnalyzer_init_Inr [OF this] obtain s1 where
    lc: "load_config_try w ''config/config.yaml'' s = Inr (config a, s1)"
    and iv: "initialize_vector_store w s1 = (Inr (vector_store a), s')"
    by blast
  from lc have d1: "disk s1 = disk s" by (rule load_config_try_disk)
  from iv initialize_vector_store_disk [of w s1] have d2: "disk s' = disk s1" by simp
  from assms(1) d1 have "persisted_nonempty s1" by (simp add: persisted_nonempty_def)
  from initialize_vector_store_nonempty [OF iv this] assms(1) d1 d2
  show ?thesis by (simp add: persisted_nonempty_def)
qed

lemma service_index_never_empty:
  assumes "persisted_nonempty s" and "startup w s = (Inr a, s')"
  shows "vector_store (fst (serve reqs (a, s'))) \<noteq> []
       \<and> persisted_nonempty (snd (serve reqs (a, s')))"
  using startup_nonempty [OF assms] serve_keeps_nonempty [of "(a, s')" reqs] by simp

text \<open>
  The persisted index grows with the index in memory: it is always an initial part of it,
  and each persisted index is an initial part of every later one.
\<close>

lemma handle_keeps_persisted_within:
  assumes "persisted_within a s"
  shows "persisted_within (fst (snd (handle w r a s))) (snd (snd (handle w r a s)))
       \<and> (\<forall>docs. disk s ''vectorstore'' = Some docs \<longrightarrow>
            (\<exists>docs'. disk (snd (snd (handle w r a s))) ''vectorstore'' = Some docs'
                    \<and> prefix docs docs'))"
proof -
  note grow = handle_prefix [of a w r s]
  from handle_persisted [of w r a s] show ?thesis
  proof
    assume "disk (snd (snd (handle w r a s))) = disk s"
    with assms grow show ?thesis
      by (auto simp: persisted_within_def intro: prefix_order.trans)
  next
    assume "disk (snd (snd (handle w r a s))) =
              (disk s)(''vectorstore'' \<mapsto> vector_store (fst (snd (handle w r a s))))"
    with assms grow show ?thesis
      by (auto simp: persisted_within_def intro: prefix_order.trans)
  qed
qed

lemma serve_keeps_persisted_within:
  assumes "persisted_within (fst st) (snd st)"
  shows "persisted_within (fst (serve reqs st)) (snd (serve reqs st))
       \<and> (\<forall>docs. disk (snd st) ''vectorstore'' = Some docs \<longrightarrow>
            (\<exists>docs'. disk (snd (serve reqs st)) ''vectorstore'' = Some docs'
                    \<and> prefix docs docs'))"
  using assms
proof (induction reqs arbitrary: st)
  case Nil
  then show ?case by simp
next
  case (Cons wr reqs)
  obtain w r where wr: "wr = (w, r)" by (cases wr)
  obtain a s where st: "st = (a, s)" by (cases st)
  let ?st1 = "snd (handle w r a s)"
  from Cons.prems have "persisted_within a s" by (simp add: st)
  from handle_keeps_persisted_within [OF this, of w r]
  have step: "persisted_within (fst ?st1) (snd ?st1)"
    and grow1: "\<forall>docs. disk s ''vectorstore'' = Some docs \<longrightarrow>
            (\<exists>docs'. disk (snd ?st1) ''vectorstore'' = Some docs' \<and> prefix docs docs')"
    by simp_all
  from Cons.IH [OF step]
  have rest: "persisted_within (fst (serve reqs ?st1)) (snd (serve reqs ?st1))"
    and grow2: "\<forall>docs. disk (snd ?st1) ''vectorstore'' = Some docs \<longrightarrow>
            (\<exists>docs'. disk (snd (serve reqs ?st1)) ''vectorstore'' = Some docs'
                    \<and> prefix docs docs')"
    by simp_all
  have "\<exists>docs'. disk (snd (serve reqs ?st1)) ''vectorstore'' = Some docs' \<and> prefix docs docs'"
    if "disk s ''vectorstore'' = Some docs" for docs
  proof -
    from grow1 that obtain d1 where
      "disk (snd ?st1) ''vectorstore'' = Some d1" and p1: "prefix docs d1"
      by blast
    with grow2 obtain d2 where
      "disk (snd (serve reqs ?st1)) ''vectorstore'' = Some d2" and "prefix d1 d2"
      by blast
    with p1 show ?thesis by (auto intro: prefix_order.trans)
  qed
  with rest show ?case by (simp add: wr st)
qed

lemma startup_persisted_within:
  assumes "startup w s = (Inr a, s')"
  shows "persisted_within a s'"
proof -
  from assms have "DocumentAnalyzer_init w ''config/config.yaml'' s = (Inr a, s')"
    by (simp add: startup_def)
  from DocumentAnalyzer_init_Inr [OF this] obtain s1 where
    iv: "initialize_vector_store w s1 = (Inr (vector_store a), s')"
    by blast
  from iv initialize_vector_store_disk [of w s1] have d: "disk s' = disk s1" by simp
  show ?thesis
  proof (cases "disk s1 ''vectorstore''")
    case None
    with d show ?thesis by (simp add: persisted_within_def)
  next
    case (Some docs)
    with iv have "vector_store a = docs"
      by (auto simp: initialize_vector_store_load split: option.splits)
    with Some d show ?thesis by (simp add: persisted_within_def)
  qed
qed

end
